theory Spec2Isabelle
  imports Complex_Main "HOL-Library.Multiset"
begin

section \<open>JavaScript values used by the configuration code\<close>

text \<open>
  A TypeScript \<open>number\<close> read from the configuration is modelled as a rational: the
  configuration code only passes numbers through and compares none of them.
  An optional key (\<open>key?: T\<close>) is an \<open>option\<close>: \<open>None\<close> stands for an absent,
  \<open>undefined\<close> or \<open>null\<close> value, exactly the values the operator \<open>??\<close> replaces.
\<close>

type_synonym number = rat

definition nullish :: "'a option \<Rightarrow> 'a \<Rightarrow> 'a" where
  "nullish v d = (case v of None \<Rightarrow> d | Some x \<Rightarrow> x)"

text \<open>
  A \<open>Record<string, T>\<close> is the list of its own enumerable properties in insertion order.
  \<open>has_key\<close> is the operator \<open>in\<close>, \<open>getprop\<close> finds the property of a key, \<open>keys\<close> is the
  enumeration of \<open>for (const key in obj)\<close>, and \<open>assign\<close> is \<open>obj[key] = v\<close>: an existing
  property keeps its place, a new one is appended. Keys are ordinary property names (the
  accessor \<open>__proto__\<close> is not treated specially).

  A property exists whatever its value is. A configuration file can give a key the value
  \<open>null\<close>, so the value of a property of a \<open>Record<string, number>\<close> is a \<open>number option\<close>,
  with \<open>None\<close> for \<open>null\<close> or \<open>undefined\<close>. \<open>js_index\<close> is the value of the expression
  \<open>obj[key]\<close>: \<open>None\<close> when there is no such property or when its value is \<open>null\<close> or
  \<open>undefined\<close>, the two cases that \<open>??\<close> does not tell apart.
\<close>

type_synonym 'v js_record = "(string \<times> 'v) list"

definition getprop :: "'v js_record \<Rightarrow> string \<Rightarrow> 'v option" where
  "getprop obj key = map_of obj key"

definition has_key :: "string \<Rightarrow> 'v js_record \<Rightarrow> bool" where
  "has_key key obj = (getprop obj key \<noteq> None)"

definition keys :: "'v js_record \<Rightarrow> string list" where
  "keys obj = map fst obj"

definition js_index :: "'v option js_record \<Rightarrow> string \<Rightarrow> 'v option" where
  "js_index obj key = (case getprop obj key of None \<Rightarrow> None | Some v \<Rightarrow> v)"

fun assign :: "string \<Rightarrow> 'v \<Rightarrow> 'v js_record \<Rightarrow> 'v js_record" where
  "assign key v [] = [(key, v)]"
| "assign key v ((k, w) # ps) =
     (if k = key then (key, v) # ps else (k, w) # assign key v ps)"

section \<open>Submitter service: configuration loading\<close>

text \<open>
  \<open>SubmitterGlobalConfig\<close> / \<open>SubmitterConfig\<close> of the configuration types: every key is
  optional. The same shape is read from \<open>relayerConfig.submitter\<close> and from each
  \<open>chainConfig.submitter\<close>. Fields carry the prefix \<open>cfg_\<close>.
\<close>

record SubmitterConfig =
  cfg_enabled :: "bool option"
  cfg_newOrdersDelay :: "number option"
  cfg_retryInterval :: "number option"
  cfg_processingInterval :: "number option"
  cfg_maxTries :: "number option"
  cfg_maxPendingTransactions :: "number option"
  cfg_confirmations :: "number option"
  cfg_confirmationTimeout :: "number option"
  cfg_lowBalanceWarning :: "number option"
  cfg_balanceUpdateInterval :: "number option"
  cfg_gasLimitBuffer :: "number option js_record option"
  cfg_maxFeePerGas :: "number option"
  cfg_maxPriorityFeeAdjustmentFactor :: "number option"
  cfg_maxAllowedPriorityFeePerGas :: "number option"
  cfg_gasPriceAdjustmentFactor :: "number option"
  cfg_maxAllowedGasPrice :: "number option"
  cfg_priorityAdjustmentFactor :: "number option"

text \<open>The module constants of the submitter service.\<close>

definition RETRY_INTERVAL_DEFAULT :: number where
  "RETRY_INTERVAL_DEFAULT = 2000"

definition PROCESSING_INTERVAL_DEFAULT :: number where
  "PROCESSING_INTERVAL_DEFAULT = 100"

definition MAX_TRIES_DEFAULT :: number where
  "MAX_TRIES_DEFAULT = 3"

definition MAX_PENDING_TRANSACTIONS :: number where
  "MAX_PENDING_TRANSACTIONS = 1000"

definition NEW_ORDERS_DELAY_DEFAULT :: number where
  "NEW_ORDERS_DELAY_DEFAULT = 0"

definition CONFIRMATIONS_DEFAULT :: number where
  "CONFIRMATIONS_DEFAULT = 1"

definition CONFIRMATION_TIMEOUT_DEFAULT :: number where
  "CONFIRMATION_TIMEOUT_DEFAULT = 10 * 60000"

definition BALANCE_UPDATE_INTERVAL_DEFAULT :: number where
  "BALANCE_UPDATE_INTERVAL_DEFAULT = 50"

text \<open>\<open>GlobalSubmitterConfig\<close>, the result of \<open>loadGlobalSubmitterConfig\<close> (prefix \<open>g_\<close>).\<close>

record GlobalSubmitterConfig =
  g_enabled :: bool
  g_newOrdersDelay :: number
  g_retryInterval :: number
  g_processingInterval :: number
  g_maxTries :: number
  g_maxPendingTransactions :: number
  g_confirmations :: number
  g_confirmationTimeout :: number
  g_lowBalanceWarning :: "number option"
  g_balanceUpdateInterval :: number
  g_gasLimitBuffer :: "number option js_record"

definition loadGlobalSubmitterConfig :: "SubmitterConfig \<Rightarrow> GlobalSubmitterConfig" where
  "loadGlobalSubmitterConfig submitterConfig =
     (let enabled = nullish (cfg_enabled submitterConfig) True;
          newOrdersDelay = nullish (cfg_newOrdersDelay submitterConfig) NEW_ORDERS_DELAY_DEFAULT;
          retryInterval = nullish (cfg_retryInterval submitterConfig) RETRY_INTERVAL_DEFAULT;
          processingInterval =
            nullish (cfg_processingInterval submitterConfig) PROCESSING_INTERVAL_DEFAULT;
          maxTries = nullish (cfg_maxTries submitterConfig) MAX_TRIES_DEFAULT;
          maxPendingTransactions =
            nullish (cfg_maxPendingTransactions submitterConfig) MAX_PENDING_TRANSACTIONS;
          confirmations = nullish (cfg_confirmations submitterConfig) CONFIRMATIONS_DEFAULT;
          confirmationTimeout =
            nullish (cfg_confirmationTimeout submitterConfig) CONFIRMATION_TIMEOUT_DEFAULT;
          lowBalanceWarning = cfg_lowBalanceWarning submitterConfig;
          balanceUpdateInterval =
            nullish (cfg_balanceUpdateInterval submitterConfig) BALANCE_UPDATE_INTERVAL_DEFAULT;
          gasLimitBuffer0 = nullish (cfg_gasLimitBuffer submitterConfig) [];
          gasLimitBuffer =
            (if \<not> has_key ''default'' gasLimitBuffer0
             then assign ''default'' (Some 0) gasLimitBuffer0 else gasLimitBuffer0)
      in \<lparr> g_enabled = enabled,
           g_newOrdersDelay = newOrdersDelay,
           g_retryInterval = retryInterval,
           g_processingInterval = processingInterval,
           g_maxTries = maxTries,
           g_maxPendingTransactions = maxPendingTransactions,
           g_confirmations = confirmations,
           g_confirmationTimeout = confirmationTimeout,
           g_lowBalanceWarning = lowBalanceWarning,
           g_balanceUpdateInterval = balanceUpdateInterval,
           g_gasLimitBuffer = gasLimitBuffer \<rparr>)"

text \<open>
  \<open>getChainGasLimitBufferConfig\<close>: two \<open>for ... in\<close> statements copy every property of the
  defaults and then every property of the chain's overrides into a fresh object.
  \<open>copyProps src ks acc\<close> is one of them, over the keys \<open>ks\<close> of \<open>src\<close>; the keys come
  from \<open>src\<close> itself, so the lookup always finds the property, and its value is copied
  as it is, \<open>null\<close> included.
\<close>

fun copyProps :: "'v js_record \<Rightarrow> string list \<Rightarrow> 'v js_record \<Rightarrow> 'v js_record" where
  "copyProps src [] acc = acc"
| "copyProps src (key # ks) acc =
     copyProps src ks (case getprop src key of Some v \<Rightarrow> assign key v acc | None \<Rightarrow> acc)"

definition getChainGasLimitBufferConfig ::
  "number option js_record \<Rightarrow> number option js_record \<Rightarrow> number option js_record" where
  "getChainGasLimitBufferConfig defaultGasLimitBufferConfig chainGasLimitBufferConfig =
     (let gasLimitBuffers = [];
          gasLimitBuffers =
            copyProps defaultGasLimitBufferConfig (keys defaultGasLimitBufferConfig)
              gasLimitBuffers;
          gasLimitBuffers =
            copyProps chainGasLimitBufferConfig (keys chainGasLimitBufferConfig)
              gasLimitBuffers
      in gasLimitBuffers)"

text \<open>
  \<open>AMBConfig\<close> and \<open>ChainConfig\<close> as far as the submitter and the polymer collector read
  them, and the \<open>ConfigService\<close>. \<open>ambsConfig\<close> and \<open>chainsConfig\<close> are JavaScript
  \<open>Map\<close>s, listed in insertion order. \<open>getAMBConfig\<close> is a method of the configuration
  service whose body is not part of the sources at hand; it is a field of the service.
\<close>

record AMBConfig =
  amb_name :: string
  amb_getIncentivesAddress :: "string \<Rightarrow> string"

record GetterConfig =
  getter_interval :: "number option"
  getter_maxBlocks :: "number option"

record ChainConfig =
  chainId :: string
  rpc :: string
  startingBlock :: "number option"
  stoppingBlock :: "number option"
  chain_blockDelay :: "number option"
  chain_getter :: GetterConfig
  chain_submitter :: SubmitterConfig

record ConfigService =
  relayer_privateKey :: string
  relayer_submitter :: SubmitterConfig
  global_blockDelay :: "number option"
  global_getter :: GetterConfig
  ambsConfig :: "(string \<times> AMBConfig) list"
  chainsConfig :: "(string \<times> ChainConfig) list"
  getAMBConfig :: "string \<Rightarrow> string \<Rightarrow> string \<Rightarrow> string option"

text \<open>
  \<open>SubmitterWorkerData\<close> (prefix \<open>w_\<close>); the logger options, handed on unchanged, are
  left out. The source has two functions called \<open>loadWorkerData\<close>; the method of the
  submitter service is \<open>submitter_loadWorkerData\<close> here, the function of the polymer
  collector \<open>polymer_loadWorkerData\<close>.
\<close>

record SubmitterWorkerData =
  w_chainId :: string
  w_rpc :: string
  w_relayerPrivateKey :: string
  w_incentivesAddresses :: "(string \<times> string) list"
  w_newOrdersDelay :: number
  w_retryInterval :: number
  w_processingInterval :: number
  w_maxTries :: number
  w_maxPendingTransactions :: number
  w_confirmations :: number
  w_confirmationTimeout :: number
  w_gasLimitBuffer :: "number option js_record"
  w_maxFeePerGas :: "number option"
  w_maxPriorityFeeAdjustmentFactor :: "number option"
  w_maxAllowedPriorityFeePerGas :: "number option"
  w_gasPriceAdjustmentFactor :: "number option"
  w_maxAllowedGasPrice :: "number option"
  w_priorityAdjustmentFactor :: "number option"
  w_lowBalanceWarning :: "number option"
  w_balanceUpdateInterval :: number

definition submitter_loadWorkerData ::
  "ConfigService \<Rightarrow> ChainConfig \<Rightarrow> GlobalSubmitterConfig \<Rightarrow> SubmitterWorkerData" where
  "submitter_loadWorkerData configService chainConfig globalConfig =
     (let submitter = chain_submitter chainConfig;
          incentivesAddresses =
            fold (\<lambda>(_, amb) m.
                    assign (amb_name amb) (amb_getIncentivesAddress amb (chainId chainConfig)) m)
                 (ambsConfig configService) []
      in \<lparr> w_chainId = chainId chainConfig,
           w_rpc = rpc chainConfig,
           w_relayerPrivateKey = relayer_privateKey configService,
           w_incentivesAddresses = incentivesAddresses,
           w_newOrdersDelay =
             nullish (cfg_newOrdersDelay submitter) (g_newOrdersDelay globalConfig),
           w_retryInterval =
             nullish (cfg_retryInterval submitter) (g_retryInterval globalConfig),
           w_processingInterval =
             nullish (cfg_processingInterval submitter) (g_processingInterval globalConfig),
           w_maxTries = nullish (cfg_maxTries submitter) (g_maxTries globalConfig),
           w_maxPendingTransactions =
             nullish (cfg_maxPendingTransactions submitter)
               (g_maxPendingTransactions globalConfig),
           w_confirmations =
             nullish (cfg_confirmations submitter) (g_confirmations globalConfig),
           w_confirmationTimeout =
             nullish (cfg_confirmationTimeout submitter) (g_confirmationTimeout globalConfig),
           w_gasLimitBuffer =
             getChainGasLimitBufferConfig (g_gasLimitBuffer globalConfig)
               (nullish (cfg_gasLimitBuffer submitter) []),
           w_maxFeePerGas = cfg_maxFeePerGas submitter,
           w_maxPriorityFeeAdjustmentFactor = cfg_maxPriorityFeeAdjustmentFactor submitter,
           w_maxAllowedPriorityFeePerGas = cfg_maxAllowedPriorityFeePerGas submitter,
           w_gasPriceAdjustmentFactor = cfg_gasPriceAdjustmentFactor submitter,
           w_maxAllowedGasPrice = cfg_maxAllowedGasPrice submitter,
           w_priorityAdjustmentFactor = cfg_priorityAdjustmentFactor submitter,
           w_lowBalanceWarning =
             (case cfg_lowBalanceWarning submitter of
                Some v \<Rightarrow> Some v | None \<Rightarrow> g_lowBalanceWarning globalConfig),
           w_balanceUpdateInterval =
             nullish (cfg_balanceUpdateInterval submitter)
               (g_balanceUpdateInterval globalConfig) \<rparr>)"

text \<open>
  The worker data that \<open>onModuleInit\<close> hands to the submitter worker of each chain, when
  the submitter is enabled.
\<close>

definition submitterWorkersData :: "ConfigService \<Rightarrow> SubmitterWorkerData list" where
  "submitterWorkersData configService =
     (let globalSubmitterConfig = loadGlobalSubmitterConfig (relayer_submitter configService)
      in if \<not> g_enabled globalSubmitterConfig then []
         else map (\<lambda>(_, chainConfig). submitter_loadWorkerData configService chainConfig globalSubmitterConfig)
                  (chainsConfig configService))"

text \<open>A submitter configuration with no key set.\<close>

definition emptySubmitterConfig :: SubmitterConfig where
  "emptySubmitterConfig =
     \<lparr> cfg_enabled = None, cfg_newOrdersDelay = None, cfg_retryInterval = None,
       cfg_processingInterval = None, cfg_maxTries = None, cfg_maxPendingTransactions = None,
       cfg_confirmations = None, cfg_confirmationTimeout = None, cfg_lowBalanceWarning = None,
       cfg_balanceUpdateInterval = None, cfg_gasLimitBuffer = None, cfg_maxFeePerGas = None,
       cfg_maxPriorityFeeAdjustmentFactor = None, cfg_maxAllowedPriorityFeePerGas = None,
       cfg_gasPriceAdjustmentFactor = None, cfg_maxAllowedGasPrice = None,
       cfg_priorityAdjustmentFactor = None \<rparr>"

text \<open>
  Modelled from the spec: the lookup \<open>gasLimitBuffer[orderKind] ?? gasLimitBuffer.default\<close>
  of the gas limit formula (section 4.6). The submitter worker, which applies the
  buffer, is not among the sources.
\<close>

definition gasLimitBufferFor :: "number option js_record \<Rightarrow> string \<Rightarrow> number option" where
  "gasLimitBufferFor gasLimitBuffer orderKind =
     (case js_index gasLimitBuffer orderKind of
        Some v \<Rightarrow> Some v
      | None \<Rightarrow> js_index gasLimitBuffer ''default'')"

text \<open>
  A configuration whose global \<open>gasLimitBuffer\<close> sets \<open>deliver\<close> and whose single chain
  overrides \<open>deliver\<close> and adds \<open>ack\<close>.
\<close>

definition bufferGlobalSubmitter :: SubmitterConfig where
  "bufferGlobalSubmitter =
     emptySubmitterConfig \<lparr> cfg_gasLimitBuffer := Some [(''deliver'', Some (1 / 10))] \<rparr>"

definition bufferChain :: ChainConfig where
  "bufferChain =
     \<lparr> chainId = ''1'', rpc = ''http://localhost:8545'', startingBlock = None,
       stoppingBlock = None, chain_blockDelay = None,
       chain_getter = \<lparr> getter_interval = None, getter_maxBlocks = None \<rparr>,
       chain_submitter =
         emptySubmitterConfig
           \<lparr> cfg_gasLimitBuffer := Some [(''deliver'', Some (1 / 5)), (''ack'', Some (3 / 10))] \<rparr> \<rparr>"

definition bufferConfigService :: ConfigService where
  "bufferConfigService =
     \<lparr> relayer_privateKey = ''0xKEY'', relayer_submitter = bufferGlobalSubmitter,
       global_blockDelay = None,
       global_getter = \<lparr> getter_interval = None, getter_maxBlocks = None \<rparr>,
       ambsConfig = [], chainsConfig = [(''1'', bufferChain)],
       getAMBConfig = (\<lambda>amb key cid. None) \<rparr>"

text \<open>The same configuration with a global \<open>gasLimitBuffer\<close> whose \<open>default\<close> is \<open>null\<close>.\<close>

definition nullDefaultConfigService :: ConfigService where
  "nullDefaultConfigService =
     bufferConfigService
       \<lparr> relayer_submitter :=
           emptySubmitterConfig \<lparr> cfg_gasLimitBuffer := Some [(''default'', None)] \<rparr> \<rparr>"

section \<open>Polymer collector: worker start-up and status report\<close>

text \<open>
  The getter's default constants are imported from the getter service, which is not part
  of the sources at hand; they are parameters of the model.
\<close>

record GetterDefaults =
  DEFAULT_GETTER_BLOCK_DELAY :: number
  DEFAULT_GETTER_INTERVAL :: number
  DEFAULT_GETTER_MAX_BLOCKS :: "number option"

record GlobalPolymerConfig =
  gp_blockDelay :: number
  gp_interval :: number
  gp_maxBlocks :: "number option"

text \<open>\<open>PolymerWorkerData\<close> (prefix \<open>p_\<close>), again without the logger options.\<close>

record PolymerWorkerData =
  p_chainId :: string
  p_rpc :: string
  p_startingBlock :: "number option"
  p_stoppingBlock :: "number option"
  p_blockDelay :: number
  p_interval :: number
  p_maxBlocks :: "number option"
  p_incentivesAddress :: string
  p_polymerAddress :: string

datatype module_error = Error string

definition loadGlobalPolymerConfig ::
  "GetterDefaults \<Rightarrow> ConfigService \<Rightarrow> module_error + GlobalPolymerConfig" where
  "loadGlobalPolymerConfig defaults configService =
     (case map_of (ambsConfig configService) ''polymer'' of
        None \<Rightarrow>
          Inl (Error ''Failed to load Polymer module: 'polymer' configuration not found.'')
      | Some polymerConfig \<Rightarrow>
          (let blockDelay =
                 nullish (global_blockDelay configService) (DEFAULT_GETTER_BLOCK_DELAY defaults);
               getterConfig = global_getter configService;
               interval =
                 nullish (getter_interval getterConfig) (DEFAULT_GETTER_INTERVAL defaults);
               maxBlocks =
                 (case getter_maxBlocks getterConfig of
                    Some v \<Rightarrow> Some v | None \<Rightarrow> DEFAULT_GETTER_MAX_BLOCKS defaults)
           in Inr \<lparr> gp_blockDelay = blockDelay, gp_interval = interval,
                    gp_maxBlocks = maxBlocks \<rparr>))"

definition polymer_loadWorkerData ::
  "ConfigService \<Rightarrow> ChainConfig \<Rightarrow> GlobalPolymerConfig \<Rightarrow> PolymerWorkerData option" where
  "polymer_loadWorkerData configService chainConfig globalConfig =
     (let incentivesAddress =
            getAMBConfig configService ''polymer'' ''incentivesAddress'' (chainId chainConfig);
          polymerAddress =
            getAMBConfig configService ''polymer'' ''bridgeAddress'' (chainId chainConfig)
      in case (incentivesAddress, polymerAddress) of
           (Some ia, Some pa) \<Rightarrow>
             Some \<lparr> p_chainId = chainId chainConfig,
                    p_rpc = rpc chainConfig,
                    p_startingBlock = startingBlock chainConfig,
                    p_stoppingBlock = stoppingBlock chainConfig,
                    p_blockDelay =
                      nullish (chain_blockDelay chainConfig) (gp_blockDelay globalConfig),
                    p_interval =
                      nullish (getter_interval (chain_getter chainConfig))
                        (gp_interval globalConfig),
                    p_maxBlocks =
                      (case getter_maxBlocks (chain_getter chainConfig) of
                         Some v \<Rightarrow> Some v | None \<Rightarrow> gp_maxBlocks globalConfig),
                    p_incentivesAddress = ia,
                    p_polymerAddress = pa \<rparr>
         | _ \<Rightarrow> None)"

text \<open>Both polymer addresses of a chain are configured.\<close>

abbreviation hasPolymerAddresses :: "ConfigService \<Rightarrow> ChainConfig \<Rightarrow> bool" where
  "hasPolymerAddresses configService chainConfig \<equiv>
     getAMBConfig configService ''polymer'' ''incentivesAddress'' (chainId chainConfig) \<noteq> None \<and>
     getAMBConfig configService ''polymer'' ''bridgeAddress'' (chainId chainConfig) \<noteq> None"

text \<open>
  The state of the module's closure: \<open>workers\<close> is the \<open>Record<string, Worker | null>\<close>
  (a property holds \<open>Some w\<close> for a worker and \<open>None\<close> for \<open>null\<close>), \<open>spawned\<close> lists the
  \<open>new Worker\<close> calls in order, and \<open>infoLog\<close> the messages given to \<open>loggerService.info\<close>.
  \<open>Object.keys\<close> is taken in insertion order; JavaScript lists integer-like keys first,
  which changes the order of the two status lists but not their members.
\<close>

datatype worker = Worker PolymerWorkerData

datatype info_entry =
    ConfigIncomplete string
  | WorkerExited string
  | WorkersStatus "string list" "string list"

record PolymerModule =
  workers :: "worker option js_record"
  spawned :: "PolymerWorkerData list"
  infoLog :: "info_entry list"

definition emptyPolymerModule :: PolymerModule where
  "emptyPolymerModule = \<lparr> workers = [], spawned = [], infoLog = [] \<rparr>"

text \<open>The body of \<open>chainsConfig.forEach\<close>, for one chain after the other.\<close>

fun startWorkers ::
  "ConfigService \<Rightarrow> GlobalPolymerConfig \<Rightarrow> ChainConfig list \<Rightarrow> PolymerModule \<Rightarrow> PolymerModule"
  where
  "startWorkers configService globalPolymerConfig [] m = m"
| "startWorkers configService globalPolymerConfig (chainConfig # rest) m =
     startWorkers configService globalPolymerConfig rest
       (case polymer_loadWorkerData configService chainConfig globalPolymerConfig of
          Some workerData \<Rightarrow>
            m \<lparr> workers := assign (p_chainId workerData) (Some (Worker workerData)) (workers m),
                spawned := spawned m @ [workerData] \<rparr>
        | None \<Rightarrow>
            m \<lparr> infoLog := infoLog m @ [ConfigIncomplete (chainId chainConfig)] \<rparr>)"

text \<open>The module's default export: it throws before the loop when the global load fails.\<close>

definition polymerModule :: "GetterDefaults \<Rightarrow> ConfigService \<Rightarrow> module_error + PolymerModule" where
  "polymerModule defaults configService =
     (case loadGlobalPolymerConfig defaults configService of
        Inl e \<Rightarrow> Inl e
      | Inr globalPolymerConfig \<Rightarrow>
          Inr (startWorkers configService globalPolymerConfig
                 (map snd (chainsConfig configService)) emptyPolymerModule))"






text \<open>A configuration with one chain that has no polymer addresses, and one that has.\<close>

definition exampleGetterDefaults :: GetterDefaults where
  "exampleGetterDefaults =
     \<lparr> DEFAULT_GETTER_BLOCK_DELAY = 0, DEFAULT_GETTER_INTERVAL = 5000,
       DEFAULT_GETTER_MAX_BLOCKS = None \<rparr>"

definition exampleChain :: "string \<Rightarrow> ChainConfig" where
  "exampleChain cid =
     \<lparr> chainId = cid, rpc = ''http://localhost:8545'', startingBlock = None,
       stoppingBlock = None, chain_blockDelay = None,
       chain_getter = \<lparr> getter_interval = None, getter_maxBlocks = None \<rparr>,
       chain_submitter = emptySubmitterConfig \<rparr>"

definition polymerAMB :: AMBConfig where
  "polymerAMB = \<lparr> amb_name = ''polymer'', amb_getIncentivesAddress = (\<lambda>cid. ''0xINCENTIVES'') \<rparr>"

definition exampleAMBConfig :: "string \<Rightarrow> string \<Rightarrow> string \<Rightarrow> string option" where
  "exampleAMBConfig amb key cid =
     (if amb = ''polymer'' \<and> cid = ''2'' \<and> (key = ''incentivesAddress'' \<or> key = ''bridgeAddress'')
      then Some ''0xADDRESS'' else None)"

definition exampleConfigService :: "(string \<times> AMBConfig) list \<Rightarrow> ConfigService" where
  "exampleConfigService ambs =
     \<lparr> relayer_privateKey = ''0xKEY'', relayer_submitter = emptySubmitterConfig,
       global_blockDelay = None,
       global_getter = \<lparr> getter_interval = None, getter_maxBlocks = None \<rparr>,
       ambsConfig = ambs,
       chainsConfig = [(''1'', exampleChain ''1''), (''2'', exampleChain ''2'')],
       getAMBConfig = exampleAMBConfig \<rparr>"

definition exampleGlobalPolymerConfig :: GlobalPolymerConfig where
  "exampleGlobalPolymerConfig = \<lparr> gp_blockDelay = 0, gp_interval = 5000, gp_maxBlocks = None \<rparr>"

definition polymerExample :: ConfigService where
  "polymerExample = exampleConfigService [(''polymer'', polymerAMB)]"

section \<open>Common utilities\<close>

text \<open>
  \<open>getSwapIdentifier\<close>. The block number is an integer-valued \<open>number\<close>. JavaScript's
  \<open>%\<close> is the truncated remainder: the result has the sign of the dividend.
\<close>

definition js_rem :: "int \<Rightarrow> int \<Rightarrow> int" where
  "js_rem a b = sgn a * (\<bar>a\<bar> mod \<bar>b\<bar>)"

text \<open>
  The ABI coder and \<open>keccak256\<close> belong to the ethers library. The coder encodes the
  values one after the other, in the order of the arguments, and the first value it
  rejects makes \<open>encode\<close> throw: a malformed \<open>bytes\<close> string, a malformed \<open>address\<close>, or a
  \<open>uintN\<close> below zero or above \<open>2^N - 1\<close> (\<open>value out-of-bounds\<close>). The range check of
  the integers is written out. How a single accepted value is written, and which
  \<open>bytes\<close> and \<open>address\<close> strings are accepted, is the parameter \<open>coder\<close>; how the
  written values are laid out is \<open>pack\<close>; the hash is \<open>keccak256\<close>.
\<close>

datatype abi_value = AbiBytes string | AbiUint nat int | AbiAddress string

datatype abi_error = InvalidBytes | ValueOutOfBounds | InvalidAddress

definition encodeValue :: "(abi_value \<Rightarrow> abi_error + 'w) \<Rightarrow> abi_value \<Rightarrow> abi_error + 'w" where
  "encodeValue coder v =
     (case v of
        AbiUint w x \<Rightarrow> if 0 \<le> x \<and> x < 2 ^ w then coder v else Inl ValueOutOfBounds
      | AbiBytes s \<Rightarrow> coder v
      | AbiAddress s \<Rightarrow> coder v)"

fun encodeValues :: "(abi_value \<Rightarrow> abi_error + 'w) \<Rightarrow> abi_value list \<Rightarrow> abi_error + 'w list" where
  "encodeValues coder [] = Inr []"
| "encodeValues coder (v # vs) =
     (case encodeValue coder v of
        Inl e \<Rightarrow> Inl e
      | Inr w \<Rightarrow>
          (case encodeValues coder vs of
             Inl e \<Rightarrow> Inl e
           | Inr ws \<Rightarrow> Inr (w # ws)))"

definition abi_encode ::
  "(abi_value \<Rightarrow> abi_error + 'w) \<Rightarrow> ('w list \<Rightarrow> 'b) \<Rightarrow> abi_value list \<Rightarrow> abi_error + 'b" where
  "abi_encode coder pack vs =
     (case encodeValues coder vs of
        Inl e \<Rightarrow> Inl e
      | Inr ws \<Rightarrow> Inr (pack ws))"

definition getSwapIdentifier ::
  "(abi_value \<Rightarrow> abi_error + 'w) \<Rightarrow> ('w list \<Rightarrow> 'b) \<Rightarrow> ('b \<Rightarrow> 'h) \<Rightarrow>
   string \<Rightarrow> int \<Rightarrow> int \<Rightarrow> string \<Rightarrow> int \<Rightarrow> abi_error + 'h" where
  "getSwapIdentifier coder pack keccak256 toAccount units fromAmountMinusFee fromAsset
     blockNumber =
     (case abi_encode coder pack
             [AbiBytes toAccount, AbiUint 256 units, AbiUint 256 fromAmountMinusFee,
              AbiAddress fromAsset, AbiUint 32 (js_rem blockNumber (2 ^ 32))] of
        Inl e \<Rightarrow> Inl e
      | Inr encoded \<Rightarrow> Inr (keccak256 encoded))"






text \<open>
  \<open>tryErrorToString\<close>. Its argument is any JavaScript value: \<open>undefined\<close>, \<open>null\<close>, a
  string, or another value. Of another value only the outcome of calling its
  \<open>toString()\<close> matters: the call does not return (\<open>None\<close>), it throws (also when there
  is no such method), or it returns a value, which for an argument of type \<open>any\<close> need
  not be a string. The function returns that value as it is. The result \<open>None\<close> means
  that the function does not return; an exception leaving it would be \<open>Some (Inl exn)\<close>.
\<close>

datatype js_exception = Thrown string

datatype js_value =
    JsUndefined
  | JsNull
  | JsString string
  | JsOther "(js_exception + js_value) option"

definition tryErrorToString :: "js_value \<Rightarrow> (js_exception + js_value) option" where
  "tryErrorToString error =
     (case error of
        JsUndefined \<Rightarrow> Some (Inr JsUndefined)
      | JsNull \<Rightarrow> Some (Inr JsUndefined)
      | JsString s \<Rightarrow> Some (Inr (JsString s))
      | JsOther toString \<Rightarrow>
          (case toString of
             None \<Rightarrow> None
           | Some (Inr returned) \<Rightarrow> Some (Inr returned)
           | Some (Inl exn) \<Rightarrow> Some (Inr (JsString ''Unable to stringify error.''))))"

section \<open>Test utility: querying logs\<close>

text \<open>
  The provider is given by what its successive \<open>getLogs\<close> calls answer: the \<open>n\<close>-th poll
  with a filter returns a list of logs or fails. The escrow interface is any object with
  \<open>getEvent\<close> and \<open>parseLog\<close>: \<open>getEvent\<close> yields the topic hash of the fragment of an
  event name, or \<open>null\<close> (\<open>None\<close>) for a name the interface does not have, and reading
  \<open>topicHash\<close> of \<open>null\<close> throws a \<open>TypeError\<close>; \<open>parseLog\<close> may throw, and otherwise yields
  the \<open>messageIdentifier\<close> argument of the parsed log, if there is one.
\<close>

record log_filter =
  f_address :: string
  f_topics :: "string list"
  f_blockHash :: "string option"

datatype rpc_error = RpcError string

type_synonym 'l provider = "log_filter \<Rightarrow> nat \<Rightarrow> rpc_error + 'l list"

record 'l escrow_interface =
  getEvent :: "string \<Rightarrow> string option"
  parseLog :: "'l \<Rightarrow> js_exception + string option"

datatype query_error = RetryIntervalUndefined | TopicHashOfNull | GetLogsFailed rpc_error

text \<open>
  A result \<open>None\<close> means that the call never returns; \<open>Some (Inl e)\<close> that it throws;
  \<open>Some (Inr (r, n))\<close> that it returns \<open>r\<close> after \<open>n\<close> polls of the provider.
\<close>

partial_function (option) queryLogsByBlock ::
  "'l provider \<Rightarrow> log_filter \<Rightarrow> nat \<Rightarrow> (query_error + 'l option \<times> nat) option" where
  "queryLogsByBlock provider filter' n =
     (case provider filter' n of
        Inl e \<Rightarrow> Some (Inl (GetLogsFailed e))
      | Inr logs \<Rightarrow>
          (case logs of
             l # _ \<Rightarrow> Some (Inr (Some l, Suc n))
           | [] \<Rightarrow> queryLogsByBlock provider filter' (Suc n)))"

text \<open>
  The \<open>for\<close> loop of \<open>queryLogsByMessageIdentifier\<close> over the logs of one poll. An
  exception of \<open>parseLog\<close> ends the loop: the \<open>catch\<close> around it discards the error.
\<close>

fun findMessageIdentifier ::
  "('l \<Rightarrow> js_exception + string option) \<Rightarrow> string \<Rightarrow> 'l list \<Rightarrow> 'l option" where
  "findMessageIdentifier parse messageIdentifier [] = None"
| "findMessageIdentifier parse messageIdentifier (l # logs) =
     (case parse l of
        Inl exn \<Rightarrow> None
      | Inr arg \<Rightarrow>
          if arg = Some messageIdentifier then Some l
          else findMessageIdentifier parse messageIdentifier logs)"

partial_function (option) queryLogsByMessageIdentifier ::
  "'l provider \<Rightarrow> ('l \<Rightarrow> js_exception + string option) \<Rightarrow> log_filter \<Rightarrow> string \<Rightarrow> nat \<Rightarrow>
   (query_error + 'l option \<times> nat) option" where
  "queryLogsByMessageIdentifier provider parse filter' messageIdentifier n =
     (case provider filter' n of
        Inl e \<Rightarrow> queryLogsByMessageIdentifier provider parse filter' messageIdentifier (Suc n)
      | Inr logs \<Rightarrow>
          (case findMessageIdentifier parse messageIdentifier logs of
             Some l \<Rightarrow> Some (Inr (Some l, Suc n))
           | None \<Rightarrow>
               queryLogsByMessageIdentifier provider parse filter' messageIdentifier (Suc n)))"

text \<open>An optional string argument is truthy when it is given and not empty.\<close>

definition truthy :: "string option \<Rightarrow> bool" where
  "truthy s = (case s of None \<Rightarrow> False | Some v \<Rightarrow> v \<noteq> [])"

text \<open>
  \<open>queryLogs\<close>; \<open>retryInterval\<close> is the module constant read from the configuration, which
  may be undefined.
\<close>

definition queryLogs ::
  "number option \<Rightarrow> string \<Rightarrow> 'l escrow_interface \<Rightarrow> string \<Rightarrow> 'l provider \<Rightarrow>
   string option \<Rightarrow> string option \<Rightarrow> (query_error + 'l option \<times> nat) option" where
  "queryLogs retryInterval incentiveAddress incentivesEscrowInterface eventName provider
     blockHash messageIdentifier =
     (if retryInterval = None then Some (Inl RetryIntervalUndefined)
      else
        case getEvent incentivesEscrowInterface eventName of
          None \<Rightarrow> Some (Inl TopicHashOfNull)
        | Some eventTopic \<Rightarrow>
            (let filter' = \<lparr> f_address = incentiveAddress, f_topics = [eventTopic],
                              f_blockHash = None \<rparr>
             in if truthy blockHash
                then queryLogsByBlock provider (filter' \<lparr> f_blockHash := blockHash \<rparr>) 0
                else if truthy messageIdentifier
                then queryLogsByMessageIdentifier provider (parseLog incentivesEscrowInterface)
                       filter' (the messageIdentifier) 0
                else Some (Inr (None, 0))))"

text \<open>An interface, a provider that never finds a log and the answers of one that finds two
  logs at its third poll, to run \<open>queryLogs\<close> on examples.\<close>

definition exampleInterface :: "string escrow_interface" where
  "exampleInterface =
     \<lparr> getEvent = (\<lambda>name. if name = ''BountyPlaced'' then Some ''0xTOPIC'' else None),
       parseLog = (\<lambda>l. Inr None) \<rparr>"

definition silentProvider :: "string provider" where
  "silentProvider filter' n = Inr []"

definition thirdPollLogs :: "log_filter \<Rightarrow> nat \<Rightarrow> string list" where
  "thirdPollLogs filter' n = (if n = 2 then [''log A'', ''log B''] else [])"

section \<open>Bounty store and evaluator, modelled from the specification\<close>

text \<open>
  The store library, its types and the evaluator are used by the tests but are not
  among the sources at hand. Every definition of this section follows the words of the
  specification (sections 3, 4.2, 4.3, 4.5 and 4.7).
\<close>

text \<open>
  Modelled from the spec: what every observed event carries, the message identifier
  (MID) and the place of its log: block number, log index, transaction and block hash.
  The store's event types are missing from the sources.
\<close>

record EventInfo =
  ev_messageIdentifier :: string
  ev_blockNumber :: nat
  ev_logIndex :: nat
  ev_transactionHash :: string
  ev_blockHash :: string

text \<open>
  Modelled from the spec: the incentive of a \<open>BountyPlaced\<close> event (section 3); the
  store's type is missing from the sources.
\<close>

record Incentive =
  inc_fromChainId :: string
  inc_incentivesAddress :: string
  inc_maxGasDelivery :: nat
  inc_maxGasAck :: nat
  inc_refundGasTo :: string
  inc_priceOfDeliveryGas :: nat
  inc_priceOfAckGas :: nat
  inc_targetDelta :: nat

text \<open>
  Modelled from the spec: the tagged union \<open>BountyEvent\<close> (section 3), missing from the
  sources. \<open>BountyIncreased\<close> carries the new delivery and ack gas prices,
  \<open>MessageDelivered\<close> the destination chain.
\<close>

datatype BountyEvent =
    BountyPlaced EventInfo Incentive
  | BountyIncreased EventInfo nat nat
  | MessageDelivered EventInfo string
  | BountyClaimed EventInfo

text \<open>Modelled from the spec: the common fields of an event of the missing union.\<close>

fun infoOf :: "BountyEvent \<Rightarrow> EventInfo" where
  "infoOf (BountyPlaced i inc) = i"
| "infoOf (BountyIncreased i d a) = i"
| "infoOf (MessageDelivered i c) = i"
| "infoOf (BountyClaimed i) = i"

text \<open>
  Modelled from the spec: the pair \<open>(blockNumber, logIndex)\<close> of an event and its order,
  the tiebreak of the missing merge function (section 4.2).
\<close>

definition position :: "BountyEvent \<Rightarrow> nat \<times> nat" where
  "position E = (ev_blockNumber (infoOf E), ev_logIndex (infoOf E))"

text \<open>Modelled from the spec: \<open>larger\<close> for positions, block number first (section 4.2).\<close>

definition larger :: "nat \<times> nat \<Rightarrow> nat \<times> nat \<Rightarrow> bool" where
  "larger p q = (fst q < fst p \<or> (fst q = fst p \<and> snd q < snd p))"

text \<open>
  Modelled from the spec: \<open>statusOf\<close> of the missing merge function (section 4.2):
  \<open>statusOf(Placed|Increased) = 0\<close>, \<open>statusOf(Delivered) = 1\<close>, \<open>statusOf(Claimed) = 2\<close>.
\<close>

fun statusOf :: "BountyEvent \<Rightarrow> nat" where
  "statusOf (BountyPlaced i inc) = 0"
| "statusOf (BountyIncreased i d a) = 0"
| "statusOf (MessageDelivered i c) = 1"
| "statusOf (BountyClaimed i) = 2"

text \<open>Modelled from the spec: the event kinds, one slot of the missing \<open>RelayState\<close> each.\<close>

datatype EventKind = Placed | Increased | Delivered | Claimed

text \<open>Modelled from the spec: the kind, that is the slot, of an event of the missing union.\<close>

fun kindOf :: "BountyEvent \<Rightarrow> EventKind" where
  "kindOf (BountyPlaced i inc) = Placed"
| "kindOf (BountyIncreased i d a) = Increased"
| "kindOf (MessageDelivered i c) = Delivered"
| "kindOf (BountyClaimed i) = Claimed"

text \<open>
  Modelled from the spec: the missing \<open>RelayState\<close> (section 3), the aggregate of one MID:
  the latest seen event of each kind, the status (0 placed, 1 delivered, 2 claimed), the
  gas costs observed at delivery and ack, and the two attempt counters.
\<close>

record RelayState =
  rs_messageIdentifier :: string
  status :: nat
  bountyPlacedEvent :: "BountyEvent option"
  bountyIncreasedEvent :: "BountyEvent option"
  messageDeliveredEvent :: "BountyEvent option"
  bountyClaimedEvent :: "BountyEvent option"
  deliveryGasCost :: "nat option"
  ackGasCost :: "nat option"
  deliveryAttempts :: nat
  ackAttempts :: nat

text \<open>Modelled from the spec: the missing \<open>RelayState\<close> of a MID before any event.\<close>

definition emptyRelayState :: "string \<Rightarrow> RelayState" where
  "emptyRelayState mid =
     \<lparr> rs_messageIdentifier = mid, status = 0, bountyPlacedEvent = None,
       bountyIncreasedEvent = None, messageDeliveredEvent = None, bountyClaimedEvent = None,
       deliveryGasCost = None, ackGasCost = None, deliveryAttempts = 0, ackAttempts = 0 \<rparr>"

text \<open>Modelled from the spec: reading the slot of a kind in the missing \<open>RelayState\<close>.\<close>

fun slot :: "EventKind \<Rightarrow> RelayState \<Rightarrow> BountyEvent option" where
  "slot Placed S = bountyPlacedEvent S"
| "slot Increased S = bountyIncreasedEvent S"
| "slot Delivered S = messageDeliveredEvent S"
| "slot Claimed S = bountyClaimedEvent S"

text \<open>
  Modelled from the spec: part (i) of the missing merge rule (section 4.2), for one
  slot: an empty slot is filled, and a later observation with a larger
  \<open>(blockNumber, logIndex)\<close> wins over the earlier one.
\<close>

definition fillSlot :: "BountyEvent \<Rightarrow> BountyEvent option \<Rightarrow> BountyEvent option" where
  "fillSlot E s =
     (case s of
        None \<Rightarrow> Some E
      | Some old \<Rightarrow> if larger (position E) (position old) then Some E else Some old)"

text \<open>
  Modelled from the spec: the missing merge of an event into a \<open>RelayState\<close> (section
  4.2): the matching slot is filled by rule (i), and (ii)
  \<open>status = max(S.status, statusOf(E))\<close>.
\<close>

definition mergeEvent :: "BountyEvent \<Rightarrow> RelayState \<Rightarrow> RelayState" where
  "mergeEvent E S =
     (let S' = (case kindOf E of
                  Placed \<Rightarrow> S \<lparr> bountyPlacedEvent := fillSlot E (bountyPlacedEvent S) \<rparr>
                | Increased \<Rightarrow> S \<lparr> bountyIncreasedEvent := fillSlot E (bountyIncreasedEvent S) \<rparr>
                | Delivered \<Rightarrow> S \<lparr> messageDeliveredEvent := fillSlot E (messageDeliveredEvent S) \<rparr>
                | Claimed \<Rightarrow> S \<lparr> bountyClaimedEvent := fillSlot E (bountyClaimedEvent S) \<rparr>)
      in S' \<lparr> status := max (status S) (statusOf E) \<rparr>)"

text \<open>
  Modelled from the spec: the kinds of order and the results the wallet merges back
  into the missing store (sections 3, 4.6 and 4.7): a confirmation with its gas cost, or
  a failure after the last try, which increments the attempt counter.
\<close>

datatype OrderKind = DeliveryOrder | AckOrder

text \<open>
  Modelled from the spec: a mutation of the missing store (section 3, lifecycle): by
  the collector, an observed event, or by the wallet, for the message \<open>mid\<close>.
\<close>

datatype StoreUpdate =
    Observed BountyEvent
  | WalletConfirmed string OrderKind nat
  | WalletFailed string OrderKind

text \<open>Modelled from the spec: the message identifier a mutation of the missing store is for.\<close>

fun updateMid :: "StoreUpdate \<Rightarrow> string" where
  "updateMid (Observed E) = ev_messageIdentifier (infoOf E)"
| "updateMid (WalletConfirmed mid k cost) = mid"
| "updateMid (WalletFailed mid k) = mid"

text \<open>
  Modelled from the spec: the effect of a wallet result on the missing \<open>RelayState\<close>
  (sections 3 and 4.6): the gas cost is recorded, or the attempt counter incremented.
\<close>

fun walletResult :: "StoreUpdate \<Rightarrow> RelayState \<Rightarrow> RelayState" where
  "walletResult (WalletConfirmed mid DeliveryOrder cost) S = S \<lparr> deliveryGasCost := Some cost \<rparr>"
| "walletResult (WalletConfirmed mid AckOrder cost) S = S \<lparr> ackGasCost := Some cost \<rparr>"
| "walletResult (WalletFailed mid DeliveryOrder) S = S \<lparr> deliveryAttempts := Suc (deliveryAttempts S) \<rparr>"
| "walletResult (WalletFailed mid AckOrder) S = S \<lparr> ackAttempts := Suc (ackAttempts S) \<rparr>"
| "walletResult (Observed E) S = mergeEvent E S"

text \<open>
  Modelled from the spec: the missing store (section 4.3), a key-value map from
  \<open>"relay_state:" + MID\<close> to the \<open>RelayState\<close>.
\<close>

type_synonym Store = "string \<Rightarrow> RelayState option"

text \<open>Modelled from the spec: the key of a MID in the missing store (section 4.3).\<close>

definition relayStateKey :: "string \<Rightarrow> string" where
  "relayStateKey mid = ''relay_state:'' @ mid"

text \<open>
  Modelled from the spec: a mutation applied to the missing store. The collector
  upserts an event under its MID (section 4.2), creating the \<open>RelayState\<close> when there is
  none; a wallet result changes the \<open>RelayState\<close> of its order. Nothing is deleted.
\<close>

definition storeUpdate :: "StoreUpdate \<Rightarrow> Store \<Rightarrow> Store" where
  "storeUpdate u store =
     (let key = relayStateKey (updateMid u)
      in case u of
           Observed E \<Rightarrow>
             store (key \<mapsto> mergeEvent E (case store key of
                                            None \<Rightarrow> emptyRelayState (updateMid u)
                                          | Some S \<Rightarrow> S))
         | _ \<Rightarrow> (case store key of
                   None \<Rightarrow> store
                 | Some S \<Rightarrow> store (key \<mapsto> walletResult u S)))"

text \<open>
  Modelled from the spec: the knobs of the missing evaluator (section 4.5),
  \<open>minDeliveryReward\<close>, \<open>relativeMinDeliveryReward\<close> and their ack equivalents.
\<close>

record EvaluatorConfig =
  minDeliveryReward :: rat
  relativeMinDeliveryReward :: rat
  minAckReward :: rat
  relativeMinAckReward :: rat

text \<open>
  Modelled from the spec: what the missing evaluator reads at decision time (sections
  4.4 and 4.5): the gas estimate of the transaction, the local gas price, and the
  price by which the pricing component converts the source denomination.
\<close>

record Quote =
  gasEst :: nat
  localGasPrice :: rat
  conversion :: rat

text \<open>
  Modelled from the spec: the delivery gas price the missing evaluator uses (section 3,
  invariants): \<open>max(original, latest BountyIncreased)\<close>; likewise for the ack.
\<close>

definition priceOfGas :: "OrderKind \<Rightarrow> RelayState \<Rightarrow> nat" where
  "priceOfGas k S =
     (let original = (case bountyPlacedEvent S of
                        Some (BountyPlaced i inc) \<Rightarrow>
                          (case k of DeliveryOrder \<Rightarrow> inc_priceOfDeliveryGas inc
                                   | AckOrder \<Rightarrow> inc_priceOfAckGas inc)
                      | _ \<Rightarrow> 0);
          increased = (case bountyIncreasedEvent S of
                         Some (BountyIncreased i d a) \<Rightarrow>
                           (case k of DeliveryOrder \<Rightarrow> d | AckOrder \<Rightarrow> a)
                       | _ \<Rightarrow> 0)
      in max original increased)"

text \<open>Modelled from the spec: the gas limit of the bounty that the missing evaluator caps by.\<close>

definition maxGas :: "OrderKind \<Rightarrow> RelayState \<Rightarrow> nat" where
  "maxGas k S =
     (case bountyPlacedEvent S of
        Some (BountyPlaced i inc) \<Rightarrow>
          (case k of DeliveryOrder \<Rightarrow> inc_maxGasDelivery inc | AckOrder \<Rightarrow> inc_maxGasAck inc)
      | _ \<Rightarrow> 0)"

text \<open>
  Modelled from the spec: \<open>valueIn = priceOfDeliveryGas \<times> min(gasEst, maxGasDelivery)\<close>,
  converted via pricing, of the missing evaluator (section 4.5).
\<close>

definition valueIn :: "Quote \<Rightarrow> OrderKind \<Rightarrow> RelayState \<Rightarrow> rat" where
  "valueIn q k S = of_nat (priceOfGas k S * min (gasEst q) (maxGas k S)) * conversion q"

text \<open>Modelled from the spec: \<open>costOut = gasEst \<times> localGasPrice\<close> (section 4.5).\<close>

definition costOut :: "Quote \<Rightarrow> rat" where
  "costOut q = of_nat (gasEst q) * localGasPrice q"

text \<open>
  Modelled from the spec: the right-hand side of the profitability test of the missing
  evaluator, \<open>costOut \<times> (1 + relativeMinReward) + minReward\<close>, with the knobs of the order
  kind.
\<close>

definition requiredValue :: "EvaluatorConfig \<Rightarrow> Quote \<Rightarrow> OrderKind \<Rightarrow> rat" where
  "requiredValue cfg q k =
     (case k of
        DeliveryOrder \<Rightarrow> costOut q * (1 + relativeMinDeliveryReward cfg) + minDeliveryReward cfg
      | AckOrder \<Rightarrow> costOut q * (1 + relativeMinAckReward cfg) + minAckReward cfg)"

text \<open>
  Modelled from the spec: the candidate order of a \<open>RelayState\<close> in the missing evaluator
  (section 4.5): a delivery for status 0 without \<open>MessageDelivered\<close>, an ack for status 1
  without \<open>BountyClaimed\<close>, none otherwise.
\<close>

definition candidate :: "RelayState \<Rightarrow> OrderKind option" where
  "candidate S =
     (if status S = 0 \<and> messageDeliveredEvent S = None then Some DeliveryOrder
      else if status S = 1 \<and> bountyClaimedEvent S = None then Some AckOrder
      else None)"

text \<open>Modelled from the spec: the \<open>SubmitOrder\<close> the missing evaluator emits.\<close>

record SubmitOrder =
  order_messageIdentifier :: string
  order_kind :: OrderKind

text \<open>
  Modelled from the spec: the missing evaluator (section 4.5): zero or one order for a
  \<open>RelayState\<close>, the candidate being emitted iff
  \<open>valueIn \<ge> costOut \<times> (1 + relativeMinReward) + minReward\<close>.
\<close>

definition evaluate :: "EvaluatorConfig \<Rightarrow> Quote \<Rightarrow> RelayState \<Rightarrow> SubmitOrder option" where
  "evaluate cfg q S =
     (case candidate S of
        None \<Rightarrow> None
      | Some k \<Rightarrow>
          if valueIn q k S \<ge> requiredValue cfg q k
          then Some \<lparr> order_messageIdentifier = rs_messageIdentifier S, order_kind = k \<rparr>
          else None)"

text \<open>
  Modelled from the spec: the ticks of the missing orchestrator for one \<open>RelayState\<close>
  (sections 2 and 4.8). At each tick the evaluator decides with the quote of that tick;
  an emitted order goes to the submitter and the wallet, and the event that its
  transaction causes, if any, is observed and merged. Without an order the relayer sends
  no transaction and the state stays as it is. The result is the final state and the
  orders emitted.
\<close>

fun relayTicks ::
  "EvaluatorConfig \<Rightarrow> (Quote \<times> (SubmitOrder \<Rightarrow> BountyEvent option)) list \<Rightarrow> RelayState \<Rightarrow>
   RelayState \<times> SubmitOrder list" where
  "relayTicks cfg [] S = (S, [])"
| "relayTicks cfg ((q, outcome) # ticks) S =
     (case evaluate cfg q S of
        None \<Rightarrow> relayTicks cfg ticks S
      | Some ord \<Rightarrow>
          (let S' = (case outcome ord of None \<Rightarrow> S | Some E \<Rightarrow> mergeEvent E S);
               (S'', orders) = relayTicks cfg ticks S'
           in (S'', ord # orders)))"

text \<open>Events, a bounty with zero gas prices and quotes to run the model on examples.\<close>

definition exampleInfo :: "nat \<Rightarrow> nat \<Rightarrow> string \<Rightarrow> EventInfo" where
  "exampleInfo b l h =
     \<lparr> ev_messageIdentifier = ''0xMID'', ev_blockNumber = b, ev_logIndex = l,
       ev_transactionHash = ''0xTX'', ev_blockHash = h \<rparr>"

definition exampleIncentive :: "nat \<Rightarrow> Incentive" where
  "exampleIncentive price =
     \<lparr> inc_fromChainId = ''1'', inc_incentivesAddress = ''0xESCROW'',
       inc_maxGasDelivery = 2000000, inc_maxGasAck = 2000000,
       inc_refundGasTo = ''0xREFUND'', inc_priceOfDeliveryGas = price,
       inc_priceOfAckGas = price, inc_targetDelta = 0 \<rparr>"

definition placedOnForkA :: BountyEvent where
  "placedOnForkA = BountyPlaced (exampleInfo 10 0 ''0xFORK-A'') (exampleIncentive 50)"

definition placedOnForkB :: BountyEvent where
  "placedOnForkB = BountyPlaced (exampleInfo 10 0 ''0xFORK-B'') (exampleIncentive 50)"

definition deliveredEvent :: BountyEvent where
  "deliveredEvent = MessageDelivered (exampleInfo 12 3 ''0xDEST'') ''2''"

definition claimedEvent :: BountyEvent where
  "claimedEvent = BountyClaimed (exampleInfo 15 1 ''0xFORK-A'')"

definition zeroPriceState :: RelayState where
  "zeroPriceState =
     mergeEvent (BountyPlaced (exampleInfo 10 0 ''0xFORK-A'') (exampleIncentive 0))
       (emptyRelayState ''0xMID'')"

definition exampleEvaluatorConfig :: EvaluatorConfig where
  "exampleEvaluatorConfig =
     \<lparr> minDeliveryReward = 0, relativeMinDeliveryReward = 0, minAckReward = 0,
       relativeMinAckReward = 0 \<rparr>"

definition pricedQuote :: Quote where
  "pricedQuote = \<lparr> gasEst = 100000, localGasPrice = 2, conversion = 1 \<rparr>"

definition freeGasQuote :: Quote where
  "freeGasQuote = \<lparr> gasEst = 100000, localGasPrice = 0, conversion = 1 \<rparr>"

definition deliveryOutcome :: "SubmitOrder \<Rightarrow> BountyEvent option" where
  "deliveryOutcome ord =
     (case order_kind ord of
        DeliveryOrder \<Rightarrow> Some deliveredEvent
      | AckOrder \<Rightarrow> Some claimedEvent)"

definition emptyStore :: Store where
  "emptyStore key = None"

text \<open>
  A store in which the example message has been placed, delivered and claimed, and
  mutations that reach it afterwards.
\<close>

definition terminalStore :: Store where
  "terminalStore =
     fold storeUpdate [Observed placedOnForkA, Observed deliveredEvent, Observed claimedEvent]
       emptyStore"

definition laterUpdates :: "StoreUpdate list" where
  "laterUpdates =
     [WalletConfirmed ''0xMID'' DeliveryOrder 21000, Observed placedOnForkB,
      Observed deliveredEvent, WalletFailed ''0xMID'' AckOrder]"

text \<open>The bounty placed again after the two forks, in a later block.\<close>

definition placedFinal :: BountyEvent where
  "placedFinal = BountyPlaced (exampleInfo 12 0 ''0xFINAL'') (exampleIncentive 50)"

section \<open>Properties of the submitter configuration\<close>

lemma getprop_assign: "getprop (assign key v obj) k = (if k = key then Some v else getprop obj k)"
  by (induction obj) (auto simp: getprop_def)

lemma has_key_keys: "has_key k obj \<longleftrightarrow> k \<in> set (keys obj)"
  by (induction obj) (auto simp: has_key_def getprop_def keys_def)

lemma getprop_copyProps:
  "getprop (copyProps src ks acc) k =
     (if k \<in> set ks \<and> has_key k src then getprop src k else getprop acc k)"
proof (induction ks arbitrary: acc)
  case Nil
  show ?case by simp
next
  case (Cons key ks)
  show ?case
  proof (cases "getprop src key")
    case None
    with Cons show ?thesis by (auto simp: has_key_def)
  next
    case (Some v)
    with Cons show ?thesis by (auto simp: has_key_def getprop_assign)
  qed
qed

lemma getprop_getChainGasLimitBufferConfig:
  "getprop (getChainGasLimitBufferConfig d c) k =
     (case getprop c k of Some v \<Rightarrow> Some v | None \<Rightarrow> getprop d k)"
proof -
  have "getprop (getChainGasLimitBufferConfig d c) k =
        (if has_key k c then getprop c k else if has_key k d then getprop d k else None)"
    by (simp add: getChainGasLimitBufferConfig_def getprop_copyProps has_key_keys [symmetric])
       (simp add: getprop_def)
  then show ?thesis
    by (auto simp: has_key_def split: option.splits)
qed

lemma global_gasLimitBuffer_default:
  "has_key ''default'' (g_gasLimitBuffer (loadGlobalSubmitterConfig c))"
  by (simp add: loadGlobalSubmitterConfig_def Let_def has_key_def getprop_assign)

lemma getprop_global_gasLimitBuffer:
  "getprop (g_gasLimitBuffer (loadGlobalSubmitterConfig c)) k =
     (if k = ''default'' \<and> \<not> has_key ''default'' (nullish (cfg_gasLimitBuffer c) [])
      then Some (Some 0) else getprop (nullish (cfg_gasLimitBuffer c) []) k)"
  by (simp add: loadGlobalSubmitterConfig_def Let_def getprop_assign)

text \<open>
  C4. Whenever an optional key of the submitter configuration is absent,
  \<open>loadGlobalSubmitterConfig\<close> fills in its default: \<open>newOrdersDelay = 0\<close>,
  \<open>retryInterval = 2000\<close>, \<open>processingInterval = 100\<close>, \<open>maxTries = 3\<close>,
  \<open>maxPendingTransactions = 1000\<close>, \<open>confirmations = 1\<close>, \<open>confirmationTimeout = 600000\<close>,
  \<open>balanceUpdateInterval = 50\<close>; and when \<open>gasLimitBuffer\<close> (absent counting as empty) has no
  key \<open>default\<close>, the result has the key \<open>default\<close> with value \<open>0\<close>. A key that is present
  keeps its value, and no other key of \<open>gasLimitBuffer\<close> changes.
\<close>

theorem loadGlobalSubmitterConfig_defaults:
  "(cfg_newOrdersDelay c = None \<longrightarrow> g_newOrdersDelay (loadGlobalSubmitterConfig c) = 0) \<and>
   (cfg_retryInterval c = None \<longrightarrow> g_retryInterval (loadGlobalSubmitterConfig c) = 2000) \<and>
   (cfg_processingInterval c = None \<longrightarrow>
      g_processingInterval (loadGlobalSubmitterConfig c) = 100) \<and>
   (cfg_maxTries c = None \<longrightarrow> g_maxTries (loadGlobalSubmitterConfig c) = 3) \<and>
   (cfg_maxPendingTransactions c = None \<longrightarrow>
      g_maxPendingTransactions (loadGlobalSubmitterConfig c) = 1000) \<and>
   (cfg_confirmations c = None \<longrightarrow> g_confirmations (loadGlobalSubmitterConfig c) = 1) \<and>
   (cfg_confirmationTimeout c = None \<longrightarrow>
      g_confirmationTimeout (loadGlobalSubmitterConfig c) = 600000) \<and>
   (cfg_balanceUpdateInterval c = None \<longrightarrow>
      g_balanceUpdateInterval (loadGlobalSubmitterConfig c) = 50) \<and>
   (\<not> has_key ''default'' (nullish (cfg_gasLimitBuffer c) []) \<longrightarrow>
      getprop (g_gasLimitBuffer (loadGlobalSubmitterConfig c)) ''default'' = Some (Some 0)) \<and>
   (\<forall>v. cfg_newOrdersDelay c = Some v \<longrightarrow> g_newOrdersDelay (loadGlobalSubmitterConfig c) = v) \<and>
   (\<forall>v. cfg_retryInterval c = Some v \<longrightarrow> g_retryInterval (loadGlobalSubmitterConfig c) = v) \<and>
   (\<forall>v. cfg_processingInterval c = Some v \<longrightarrow>
      g_processingInterval (loadGlobalSubmitterConfig c) = v) \<and>
   (\<forall>v. cfg_maxTries c = Some v \<longrightarrow> g_maxTries (loadGlobalSubmitterConfig c) = v) \<and>
   (\<forall>v. cfg_maxPendingTransactions c = Some v \<longrightarrow>
      g_maxPendingTransactions (loadGlobalSubmitterConfig c) = v) \<and>
   (\<forall>v. cfg_confirmations c = Some v \<longrightarrow> g_confirmations (loadGlobalSubmitterConfig c) = v) \<and>
   (\<forall>v. cfg_confirmationTimeout c = Some v \<longrightarrow>
      g_confirmationTimeout (loadGlobalSubmitterConfig c) = v) \<and>
   (\<forall>v. cfg_balanceUpdateInterval c = Some v \<longrightarrow>
      g_balanceUpdateInterval (loadGlobalSubmitterConfig c) = v) \<and>
   (\<forall>k v. getprop (nullish (cfg_gasLimitBuffer c) []) k = Some v \<longrightarrow>
      getprop (g_gasLimitBuffer (loadGlobalSubmitterConfig c)) k = Some v) \<and>
   (\<forall>k. k \<noteq> ''default'' \<longrightarrow>
      getprop (g_gasLimitBuffer (loadGlobalSubmitterConfig c)) k =
      getprop (nullish (cfg_gasLimitBuffer c) []) k)"
proof -
  have scalars:
    "g_newOrdersDelay (loadGlobalSubmitterConfig c) = nullish (cfg_newOrdersDelay c) 0"
    "g_retryInterval (loadGlobalSubmitterConfig c) = nullish (cfg_retryInterval c) 2000"
    "g_processingInterval (loadGlobalSubmitterConfig c) = nullish (cfg_processingInterval c) 100"
    "g_maxTries (loadGlobalSubmitterConfig c) = nullish (cfg_maxTries c) 3"
    "g_maxPendingTransactions (loadGlobalSubmitterConfig c) =
       nullish (cfg_maxPendingTransactions c) 1000"
    "g_confirmations (loadGlobalSubmitterConfig c) = nullish (cfg_confirmations c) 1"
    "g_confirmationTimeout (loadGlobalSubmitterConfig c) =
       nullish (cfg_confirmationTimeout c) 600000"
    "g_balanceUpdateInterval (loadGlobalSubmitterConfig c) =
       nullish (cfg_balanceUpdateInterval c) 50"
    by (simp_all add: loadGlobalSubmitterConfig_def Let_def NEW_ORDERS_DELAY_DEFAULT_def
        RETRY_INTERVAL_DEFAULT_def PROCESSING_INTERVAL_DEFAULT_def MAX_TRIES_DEFAULT_def
        MAX_PENDING_TRANSACTIONS_def CONFIRMATIONS_DEFAULT_def
        CONFIRMATION_TIMEOUT_DEFAULT_def BALANCE_UPDATE_INTERVAL_DEFAULT_def)
  have buffer:
    "\<not> has_key ''default'' (nullish (cfg_gasLimitBuffer c) []) \<longrightarrow>
       getprop (g_gasLimitBuffer (loadGlobalSubmitterConfig c)) ''default'' = Some (Some 0)"
    "\<forall>k v. getprop (nullish (cfg_gasLimitBuffer c) []) k = Some v \<longrightarrow>
       getprop (g_gasLimitBuffer (loadGlobalSubmitterConfig c)) k = Some v"
    "\<forall>k. k \<noteq> ''default'' \<longrightarrow>
       getprop (g_gasLimitBuffer (loadGlobalSubmitterConfig c)) k =
       getprop (nullish (cfg_gasLimitBuffer c) []) k"
    by (auto simp: getprop_global_gasLimitBuffer has_key_def)
  show ?thesis
    unfolding scalars using buffer by (simp add: nullish_def)
qed

theorem loadGlobalSubmitterConfig_defaults_witness:
  "g_newOrdersDelay (loadGlobalSubmitterConfig emptySubmitterConfig) = 0 \<and>
   g_retryInterval (loadGlobalSubmitterConfig emptySubmitterConfig) = 2000 \<and>
   g_processingInterval (loadGlobalSubmitterConfig emptySubmitterConfig) = 100 \<and>
   g_maxTries (loadGlobalSubmitterConfig emptySubmitterConfig) = 3 \<and>
   g_maxPendingTransactions (loadGlobalSubmitterConfig emptySubmitterConfig) = 1000 \<and>
   g_confirmations (loadGlobalSubmitterConfig emptySubmitterConfig) = 1 \<and>
   g_confirmationTimeout (loadGlobalSubmitterConfig emptySubmitterConfig) = 600000 \<and>
   g_balanceUpdateInterval (loadGlobalSubmitterConfig emptySubmitterConfig) = 50 \<and>
   getprop (g_gasLimitBuffer (loadGlobalSubmitterConfig emptySubmitterConfig)) ''default''
     = Some (Some 0)"
proof -
  have absent:
    "cfg_newOrdersDelay emptySubmitterConfig = None"
    "cfg_retryInterval emptySubmitterConfig = None"
    "cfg_processingInterval emptySubmitterConfig = None"
    "cfg_maxTries emptySubmitterConfig = None"
    "cfg_maxPendingTransactions emptySubmitterConfig = None"
    "cfg_confirmations emptySubmitterConfig = None"
    "cfg_confirmationTimeout emptySubmitterConfig = None"
    "cfg_balanceUpdateInterval emptySubmitterConfig = None"
    "\<not> has_key ''default'' (nullish (cfg_gasLimitBuffer emptySubmitterConfig) [])"
    by (simp_all add: emptySubmitterConfig_def nullish_def has_key_def getprop_def)
  show ?thesis
    using loadGlobalSubmitterConfig_defaults [of emptySubmitterConfig] absent by blast
qed

lemma worker_gasLimitBuffer:
  "getprop (w_gasLimitBuffer (submitter_loadWorkerData cs c G)) k =
     (case getprop (nullish (cfg_gasLimitBuffer (chain_submitter c)) []) k of
        Some v \<Rightarrow> Some v
      | None \<Rightarrow> getprop (g_gasLimitBuffer G) k)"
  by (simp add: submitter_loadWorkerData_def Let_def getprop_getChainGasLimitBufferConfig)

lemma worker_chainId: "w_chainId (submitter_loadWorkerData cs c G) = chainId c"
  by (simp add: submitter_loadWorkerData_def Let_def)

lemma submitterWorkersData_enabled:
  assumes "g_enabled (loadGlobalSubmitterConfig (relayer_submitter cs))"
  shows "submitterWorkersData cs =
           map (\<lambda>(_, c). submitter_loadWorkerData cs c
                            (loadGlobalSubmitterConfig (relayer_submitter cs)))
               (chainsConfig cs)"
  using assms by (simp add: submitterWorkersData_def Let_def)

lemma submitterWorkersData_disabled:
  assumes "\<not> g_enabled (loadGlobalSubmitterConfig (relayer_submitter cs))"
  shows "submitterWorkersData cs = []"
  using assms by (simp add: submitterWorkersData_def Let_def)

lemma submitterWorkersData_nth:
  assumes "i < length (submitterWorkersData cs)"
  shows "i < length (chainsConfig cs) \<and>
         submitterWorkersData cs ! i =
           submitter_loadWorkerData cs (snd (chainsConfig cs ! i))
             (loadGlobalSubmitterConfig (relayer_submitter cs))"
proof (cases "g_enabled (loadGlobalSubmitterConfig (relayer_submitter cs))")
  case True
  note all = submitterWorkersData_enabled [OF True]
  from assms have i: "i < length (chainsConfig cs)"
    by (simp add: all)
  then show ?thesis
    by (simp add: all case_prod_unfold)
next
  case False
  with assms show ?thesis
    by (simp add: submitterWorkersData_disabled)
qed

text \<open>
  C5, as amended. When the submitter is enabled, \<open>onModuleInit\<close> starts one worker for
  each configured chain, in the order of the configuration, and none otherwise. The
  \<open>gasLimitBuffer\<close> handed to the worker of a chain is the union of the global map and
  that chain's map: a key of the chain's map has the chain's value, any other key has
  the value of the global map, and nothing else is in it. The map always has the key
  \<open>default\<close>. Its value is the chain's \<open>default\<close> if the chain has that key, else the
  configured global \<open>default\<close> if there is that key, else \<open>0\<close>; unless that configured
  value is \<open>null\<close>, looking an order kind up with \<open>default\<close> as fallback finds a number.
\<close>

theorem chain_gasLimitBuffer_union:
  "let G = loadGlobalSubmitterConfig (relayer_submitter cs);
       workersData = submitterWorkersData cs
   in (g_enabled G \<longrightarrow> length workersData = length (chainsConfig cs)) \<and>
      (\<not> g_enabled G \<longrightarrow> workersData = []) \<and>
      (\<forall>i<length workersData.
         let chainConfig = snd (chainsConfig cs ! i);
             chainBuffer = nullish (cfg_gasLimitBuffer (chain_submitter chainConfig)) [];
             buffer = w_gasLimitBuffer (workersData ! i)
         in w_chainId (workersData ! i) = chainId chainConfig \<and>
            (\<forall>k. getprop buffer k =
               (case getprop chainBuffer k of
                  Some v \<Rightarrow> Some v
                | None \<Rightarrow> getprop (g_gasLimitBuffer G) k)) \<and>
            has_key ''default'' buffer \<and>
            getprop buffer ''default'' =
              (case getprop chainBuffer ''default'' of
                 Some v \<Rightarrow> Some v
               | None \<Rightarrow>
                   (case getprop (nullish (cfg_gasLimitBuffer (relayer_submitter cs)) [])
                           ''default'' of
                      Some v \<Rightarrow> Some v
                    | None \<Rightarrow> Some (Some 0))) \<and>
            (getprop buffer ''default'' \<noteq> Some None \<longrightarrow>
               (\<forall>orderKind. gasLimitBufferFor buffer orderKind \<noteq> None)))"
proof -
  define G where "G = loadGlobalSubmitterConfig (relayer_submitter cs)"
  have lengths: "g_enabled G \<longrightarrow> length (submitterWorkersData cs) = length (chainsConfig cs)"
    by (simp add: G_def submitterWorkersData_enabled)
  have disabled: "\<not> g_enabled G \<longrightarrow> submitterWorkersData cs = []"
    by (simp add: G_def submitterWorkersData_disabled)
  have each: "w_chainId (submitterWorkersData cs ! i) = chainId (snd (chainsConfig cs ! i)) \<and>
      (\<forall>k. getprop (w_gasLimitBuffer (submitterWorkersData cs ! i)) k =
         (case getprop (nullish (cfg_gasLimitBuffer (chain_submitter (snd (chainsConfig cs ! i))))
                          []) k of
            Some v \<Rightarrow> Some v
          | None \<Rightarrow> getprop (g_gasLimitBuffer G) k)) \<and>
      has_key ''default'' (w_gasLimitBuffer (submitterWorkersData cs ! i)) \<and>
      getprop (w_gasLimitBuffer (submitterWorkersData cs ! i)) ''default'' =
        (case getprop (nullish (cfg_gasLimitBuffer (chain_submitter (snd (chainsConfig cs ! i))))
                         []) ''default'' of
           Some v \<Rightarrow> Some v
         | None \<Rightarrow>
             (case getprop (nullish (cfg_gasLimitBuffer (relayer_submitter cs)) [])
                     ''default'' of
                Some v \<Rightarrow> Some v
              | None \<Rightarrow> Some (Some 0))) \<and>
      (getprop (w_gasLimitBuffer (submitterWorkersData cs ! i)) ''default'' \<noteq> Some None \<longrightarrow>
         (\<forall>orderKind. gasLimitBufferFor (w_gasLimitBuffer (submitterWorkersData cs ! i))
                         orderKind \<noteq> None))"
    if i: "i < length (submitterWorkersData cs)" for i
  proof -
    define c where "c = snd (chainsConfig cs ! i)"
    define chainBuffer where "chainBuffer = nullish (cfg_gasLimitBuffer (chain_submitter c)) []"
    define buffer where "buffer = w_gasLimitBuffer (submitterWorkersData cs ! i)"
    have w: "submitterWorkersData cs ! i = submitter_loadWorkerData cs c G"
      using submitterWorkersData_nth [OF i] by (simp add: c_def G_def)
    have lookup: "getprop buffer k =
        (case getprop chainBuffer k of Some v \<Rightarrow> Some v | None \<Rightarrow> getprop (g_gasLimitBuffer G) k)"
      for k
      by (simp add: buffer_def w worker_gasLimitBuffer chainBuffer_def)
    have glob: "getprop (g_gasLimitBuffer G) ''default'' =
        (case getprop (nullish (cfg_gasLimitBuffer (relayer_submitter cs)) []) ''default'' of
           Some v \<Rightarrow> Some v | None \<Rightarrow> Some (Some 0))"
      by (simp add: G_def getprop_global_gasLimitBuffer has_key_def split: option.splits)
    have dflt: "getprop buffer ''default'' =
        (case getprop chainBuffer ''default'' of
           Some v \<Rightarrow> Some v
         | None \<Rightarrow>
             (case getprop (nullish (cfg_gasLimitBuffer (relayer_submitter cs)) [])
                     ''default'' of
                Some v \<Rightarrow> Some v
              | None \<Rightarrow> Some (Some 0)))"
      by (simp add: lookup glob split: option.splits)
    have key: "has_key ''default'' buffer"
      by (simp add: has_key_def dflt split: option.splits)
    have fallback: "gasLimitBufferFor buffer orderKind \<noteq> None"
      if "getprop buffer ''default'' \<noteq> Some None" for orderKind
      using that key
      by (auto simp: gasLimitBufferFor_def js_index_def has_key_def split: option.splits)
    have "w_chainId (submitterWorkersData cs ! i) = chainId c"
      by (simp add: w worker_chainId)
    with lookup key dflt fallback show ?thesis
      unfolding buffer_def chainBuffer_def c_def by blast
  qed
  from lengths disabled each show ?thesis
    unfolding Let_def G_def by blast
qed

theorem chain_gasLimitBuffer_union_witness:
  "length (submitterWorkersData bufferConfigService) = 1 \<and>
   w_chainId (submitterWorkersData bufferConfigService ! 0) = ''1'' \<and>
   getprop (w_gasLimitBuffer (submitterWorkersData bufferConfigService ! 0)) ''deliver''
     = Some (Some (1 / 5)) \<and>
   getprop (w_gasLimitBuffer (submitterWorkersData bufferConfigService ! 0)) ''default''
     = Some (Some 0) \<and>
   gasLimitBufferFor (w_gasLimitBuffer (submitterWorkersData bufferConfigService ! 0)) ''swap''
     \<noteq> None"
proof -
  define W where "W = submitterWorkersData bufferConfigService"
  define G where "G = loadGlobalSubmitterConfig (relayer_submitter bufferConfigService)"
  have enabled: "g_enabled G"
    by (simp add: G_def loadGlobalSubmitterConfig_def Let_def bufferConfigService_def
        bufferGlobalSubmitter_def emptySubmitterConfig_def nullish_def)
  have chains: "length (chainsConfig bufferConfigService) = 1"
    "snd (chainsConfig bufferConfigService ! 0) = bufferChain"
    by (simp_all add: bufferConfigService_def)
  have chain:
    "getprop (nullish (cfg_gasLimitBuffer (chain_submitter bufferChain)) []) ''deliver''
       = Some (Some (1 / 5))"
    "getprop (nullish (cfg_gasLimitBuffer (chain_submitter bufferChain)) []) ''default'' = None"
    "chainId bufferChain = ''1''"
    by (simp_all add: bufferChain_def emptySubmitterConfig_def nullish_def getprop_def)
  have glob:
    "getprop (nullish (cfg_gasLimitBuffer (relayer_submitter bufferConfigService)) [])
       ''default'' = None"
    by (simp add: bufferConfigService_def bufferGlobalSubmitter_def emptySubmitterConfig_def
        nullish_def getprop_def)
  note union = chain_gasLimitBuffer_union [of bufferConfigService, unfolded Let_def,
      folded G_def W_def]
  from union enabled chains have len: "length W = 1"
    by simp
  then have first: "0 < length W"
    by simp
  from union first have one:
    "w_chainId (W ! 0) = chainId (snd (chainsConfig bufferConfigService ! 0))"
    "\<forall>k. getprop (w_gasLimitBuffer (W ! 0)) k =
       (case getprop (nullish (cfg_gasLimitBuffer
                 (chain_submitter (snd (chainsConfig bufferConfigService ! 0)))) []) k of
          Some v \<Rightarrow> Some v
        | None \<Rightarrow> getprop (g_gasLimitBuffer G) k)"
    "getprop (w_gasLimitBuffer (W ! 0)) ''default'' =
       (case getprop (nullish (cfg_gasLimitBuffer
                 (chain_submitter (snd (chainsConfig bufferConfigService ! 0)))) [])
               ''default'' of
          Some v \<Rightarrow> Some v
        | None \<Rightarrow>
            (case getprop (nullish (cfg_gasLimitBuffer (relayer_submitter bufferConfigService))
                             []) ''default'' of
               Some v \<Rightarrow> Some v
             | None \<Rightarrow> Some (Some 0)))"
    "getprop (w_gasLimitBuffer (W ! 0)) ''default'' \<noteq> Some None \<longrightarrow>
       (\<forall>orderKind. gasLimitBufferFor (w_gasLimitBuffer (W ! 0)) orderKind \<noteq> None)"
    by blast+
  have id: "w_chainId (W ! 0) = ''1''"
    using one(1) by (simp add: chains chain)
  have deliver: "getprop (w_gasLimitBuffer (W ! 0)) ''deliver'' = Some (Some (1 / 5))"
    using one(2) [rule_format, of "''deliver''"] by (simp add: chains chain)
  have dflt: "getprop (w_gasLimitBuffer (W ! 0)) ''default'' = Some (Some 0)"
    using one(3) by (simp add: chains chain glob)
  have "gasLimitBufferFor (w_gasLimitBuffer (W ! 0)) ''swap'' \<noteq> None"
    using one(4) dflt by simp
  with len id deliver dflt show ?thesis
    unfolding W_def by blast
qed

text \<open>
  C5 as stated fails in its last part when a configured \<open>default\<close> is \<open>null\<close>: the key is
  there, so no \<open>0\<close> is filled in, the \<open>null\<close> is copied into the map of the worker, and the
  lookup with \<open>default\<close> as fallback finds no number.
\<close>

theorem gasLimitBuffer_null_default_counterexample:
  "has_key ''default'' (w_gasLimitBuffer (hd (submitterWorkersData nullDefaultConfigService))) \<and>
   getprop (w_gasLimitBuffer (hd (submitterWorkersData nullDefaultConfigService))) ''default''
     = Some None \<and>
   gasLimitBufferFor (w_gasLimitBuffer (hd (submitterWorkersData nullDefaultConfigService)))
     ''swap'' = None"
proof -
  have G: "loadGlobalSubmitterConfig (relayer_submitter nullDefaultConfigService) =
      \<lparr> g_enabled = True, g_newOrdersDelay = 0, g_retryInterval = 2000,
        g_processingInterval = 100, g_maxTries = 3, g_maxPendingTransactions = 1000,
        g_confirmations = 1, g_confirmationTimeout = 600000, g_lowBalanceWarning = None,
        g_balanceUpdateInterval = 50, g_gasLimitBuffer = [(''default'', None)] \<rparr>"
    by (simp add: loadGlobalSubmitterConfig_def Let_def nullDefaultConfigService_def
        bufferConfigService_def emptySubmitterConfig_def nullish_def has_key_def getprop_def
        NEW_ORDERS_DELAY_DEFAULT_def RETRY_INTERVAL_DEFAULT_def PROCESSING_INTERVAL_DEFAULT_def
        MAX_TRIES_DEFAULT_def MAX_PENDING_TRANSACTIONS_def CONFIRMATIONS_DEFAULT_def
        CONFIRMATION_TIMEOUT_DEFAULT_def BALANCE_UPDATE_INTERVAL_DEFAULT_def)
  have buffer: "w_gasLimitBuffer (hd (submitterWorkersData nullDefaultConfigService)) =
      [(''default'', None), (''deliver'', Some (1 / 5)), (''ack'', Some (3 / 10))]"
    unfolding submitterWorkersData_def Let_def G
    by (simp add: nullDefaultConfigService_def bufferConfigService_def
        submitter_loadWorkerData_def getChainGasLimitBufferConfig_def Let_def keys_def
        getprop_def bufferChain_def emptySubmitterConfig_def nullish_def)
  show ?thesis
    by (simp add: buffer has_key_def getprop_def gasLimitBufferFor_def js_index_def)
qed

section \<open>Properties of the polymer collector\<close>



lemma polymer_loadWorkerData_None:
  "\<not> hasPolymerAddresses cs c \<Longrightarrow> polymer_loadWorkerData cs c g = None"
  by (auto simp: polymer_loadWorkerData_def Let_def split: option.splits)

lemma polymer_loadWorkerData_Some:
  "hasPolymerAddresses cs c \<Longrightarrow>
     \<exists>wd. polymer_loadWorkerData cs c g = Some wd \<and> p_chainId wd = chainId c"
  by (auto simp: polymer_loadWorkerData_def Let_def split: option.splits)

lemma startWorkers_spawned:
  "map p_chainId (spawned (startWorkers cs g chs m)) =
     map p_chainId (spawned m) @ map chainId (filter (hasPolymerAddresses cs) chs)"
proof (induction chs arbitrary: m)
  case Nil
  show ?case by simp
next
  case (Cons c chs)
  show ?case
  proof (cases "hasPolymerAddresses cs c")
    case False
    then have "polymer_loadWorkerData cs c g = None"
      by (rule polymer_loadWorkerData_None)
    with False show ?thesis by (simp add: Cons.IH)
  next
    case True
    then obtain wd where "polymer_loadWorkerData cs c g = Some wd" "p_chainId wd = chainId c"
      using polymer_loadWorkerData_Some [of cs c g] by blast
    with True show ?thesis by (simp add: Cons.IH)
  qed
qed

lemma startWorkers_infoLog:
  "infoLog (startWorkers cs g chs m) =
     infoLog m @ map (\<lambda>c. ConfigIncomplete (chainId c))
                   (filter (\<lambda>c. \<not> hasPolymerAddresses cs c) chs)"
proof (induction chs arbitrary: m)
  case Nil
  show ?case by simp
next
  case (Cons c chs)
  show ?case
  proof (cases "hasPolymerAddresses cs c")
    case False
    then have "polymer_loadWorkerData cs c g = None"
      by (rule polymer_loadWorkerData_None)
    with False show ?thesis by (simp add: Cons.IH)
  next
    case True
    then obtain wd where "polymer_loadWorkerData cs c g = Some wd" "p_chainId wd = chainId c"
      using polymer_loadWorkerData_Some [of cs c g] by blast
    with True show ?thesis by (simp add: Cons.IH)
  qed
qed



lemma polymerModule_Inr:
  "polymerModule d cs = Inr m \<Longrightarrow>
     \<exists>g. m = startWorkers cs g (map snd (chainsConfig cs)) emptyPolymerModule"
  by (auto simp: polymerModule_def split: sum.splits)












lemma polymerExample_module:
  "polymerModule exampleGetterDefaults polymerExample =
     Inr \<lparr> workers = [(''2'', Some (Worker
             \<lparr> p_chainId = ''2'', p_rpc = ''http://localhost:8545'', p_startingBlock = None,
               p_stoppingBlock = None, p_blockDelay = 0, p_interval = 5000,
               p_maxBlocks = None, p_incentivesAddress = ''0xADDRESS'',
               p_polymerAddress = ''0xADDRESS'' \<rparr>))],
           spawned = [\<lparr> p_chainId = ''2'', p_rpc = ''http://localhost:8545'',
               p_startingBlock = None, p_stoppingBlock = None, p_blockDelay = 0,
               p_interval = 5000, p_maxBlocks = None, p_incentivesAddress = ''0xADDRESS'',
               p_polymerAddress = ''0xADDRESS'' \<rparr>],
           infoLog = [ConfigIncomplete ''1''] \<rparr>"
  by (simp add: polymerModule_def loadGlobalPolymerConfig_def polymerExample_def
      exampleConfigService_def exampleGetterDefaults_def polymerAMB_def nullish_def
      polymer_loadWorkerData_def exampleAMBConfig_def exampleChain_def emptyPolymerModule_def
      Let_def)



text \<open>
  C7. A chain whose polymer configuration lacks the incentives address or the bridge
  address gets no worker data (\<open>null\<close>); the module starts one worker for each chain
  with both addresses, in the order of the configuration, and none for the others, for
  which it only logs a message. Without a \<open>polymer\<close> entry among the AMB configurations
  the module fails with an error, so that no worker is created; with one it starts.
\<close>

theorem polymer_workers_for_complete_config:
  "((getAMBConfig cs ''polymer'' ''incentivesAddress'' (chainId c) = None \<or>
     getAMBConfig cs ''polymer'' ''bridgeAddress'' (chainId c) = None) \<longrightarrow>
      polymer_loadWorkerData cs c g = None) \<and>
   (\<forall>m. polymerModule d cs = Inr m \<longrightarrow>
      map p_chainId (spawned m) =
        map chainId (filter (hasPolymerAddresses cs) (map snd (chainsConfig cs))) \<and>
      infoLog m =
        map (\<lambda>c. ConfigIncomplete (chainId c))
          (filter (\<lambda>c. \<not> hasPolymerAddresses cs c) (map snd (chainsConfig cs)))) \<and>
   (map_of (ambsConfig cs) ''polymer'' = None \<longrightarrow>
      polymerModule d cs =
        Inl (Error ''Failed to load Polymer module: 'polymer' configuration not found.'')) \<and>
   (map_of (ambsConfig cs) ''polymer'' \<noteq> None \<longrightarrow> (\<exists>m. polymerModule d cs = Inr m))"
proof -
  have no_data: "(getAMBConfig cs ''polymer'' ''incentivesAddress'' (chainId c) = None \<or>
     getAMBConfig cs ''polymer'' ''bridgeAddress'' (chainId c) = None) \<longrightarrow>
      polymer_loadWorkerData cs c g = None"
    using polymer_loadWorkerData_None [of cs c g] by blast
  have started: "map p_chainId (spawned m) =
        map chainId (filter (hasPolymerAddresses cs) (map snd (chainsConfig cs))) \<and>
      infoLog m =
        map (\<lambda>c. ConfigIncomplete (chainId c))
          (filter (\<lambda>c. \<not> hasPolymerAddresses cs c) (map snd (chainsConfig cs)))"
    if "polymerModule d cs = Inr m" for m
  proof -
    from that obtain g' where
      "m = startWorkers cs g' (map snd (chainsConfig cs)) emptyPolymerModule"
      using polymerModule_Inr by blast
    then show ?thesis
      by (simp add: startWorkers_spawned startWorkers_infoLog emptyPolymerModule_def)
  qed
  have absent: "map_of (ambsConfig cs) ''polymer'' = None \<longrightarrow>
      polymerModule d cs =
        Inl (Error ''Failed to load Polymer module: 'polymer' configuration not found.'')"
    by (simp add: polymerModule_def loadGlobalPolymerConfig_def)
  have present: "map_of (ambsConfig cs) ''polymer'' \<noteq> None \<longrightarrow> (\<exists>m. polymerModule d cs = Inr m)"
    by (auto simp: polymerModule_def loadGlobalPolymerConfig_def Let_def)
  show ?thesis
    using no_data started absent present by blast
qed

theorem polymer_workers_for_complete_config_witness:
  "polymer_loadWorkerData polymerExample (exampleChain ''1'') exampleGlobalPolymerConfig = None \<and>
   map p_chainId (spawned (projr (polymerModule exampleGetterDefaults polymerExample)))
     = [''2''] \<and>
   polymerModule exampleGetterDefaults (exampleConfigService []) =
     Inl (Error ''Failed to load Polymer module: 'polymer' configuration not found.'')"
proof -
  have incomplete:
    "getAMBConfig polymerExample ''polymer'' ''incentivesAddress'' (chainId (exampleChain ''1''))
       = None"
    by (simp add: polymerExample_def exampleConfigService_def exampleAMBConfig_def
        exampleChain_def)
  have started: "polymerModule exampleGetterDefaults polymerExample =
      Inr (projr (polymerModule exampleGetterDefaults polymerExample))"
    by (simp add: polymerExample_module)
  have complete: "map chainId (filter (hasPolymerAddresses polymerExample)
      (map snd (chainsConfig polymerExample))) = [''2'']"
    by (simp add: polymerExample_def exampleConfigService_def exampleAMBConfig_def
        exampleChain_def)
  have absent: "map_of (ambsConfig (exampleConfigService [])) ''polymer'' = None"
    by (simp add: exampleConfigService_def)
  from polymer_workers_for_complete_config
         [of polymerExample "exampleChain ''1''" exampleGlobalPolymerConfig
             exampleGetterDefaults]
  have "polymer_loadWorkerData polymerExample (exampleChain ''1'') exampleGlobalPolymerConfig
          = None"
    and "map p_chainId (spawned (projr (polymerModule exampleGetterDefaults polymerExample)))
          = [''2'']"
    using incomplete started complete by auto
  moreover from polymer_workers_for_complete_config
         [of "exampleConfigService []" "exampleChain ''1''" exampleGlobalPolymerConfig
             exampleGetterDefaults]
  have "polymerModule exampleGetterDefaults (exampleConfigService []) =
     Inl (Error ''Failed to load Polymer module: 'polymer' configuration not found.'')"
    using absent by blast
  ultimately show ?thesis by blast
qed

section \<open>Properties of the common utilities\<close>




text \<open>
  Whenever the coder accepts the four arguments before the block number, a negative
  block number that is not a multiple of \<open>2^32\<close> makes the call throw
  \<open>value out-of-bounds\<close>.
\<close>

lemma getSwapIdentifier_negative:
  assumes "blockNumber < 0" and "blockNumber mod 2 ^ 32 \<noteq> 0"
    and "coder (AbiBytes toAccount) = Inr w1"
    and "0 \<le> units \<and> units < 2 ^ 256" and "coder (AbiUint 256 units) = Inr w2"
    and "0 \<le> fromAmountMinusFee \<and> fromAmountMinusFee < 2 ^ 256"
    and "coder (AbiUint 256 fromAmountMinusFee) = Inr w3"
    and "coder (AbiAddress fromAsset) = Inr w4"
  shows "getSwapIdentifier coder pack keccak256 toAccount units fromAmountMinusFee fromAsset
           blockNumber = Inl ValueOutOfBounds"
proof -
  have "(- blockNumber) mod 2 ^ 32 \<noteq> 0"
    using assms(2) by (simp add: mod_eq_0_iff_dvd)
  moreover have "0 \<le> (- blockNumber) mod 2 ^ 32"
    by simp
  ultimately have "0 < (- blockNumber) mod 2 ^ 32"
    by linarith
  then have "js_rem blockNumber (2 ^ 32) < 0"
    using assms(1) by (simp add: js_rem_def)
  then show ?thesis
    using assms(3-8)
    by (simp add: getSwapIdentifier_def abi_encode_def encodeValue_def)
qed



text \<open>
  C9, as amended. \<open>tryErrorToString\<close> never throws, and it returns for every input
  unless the call of the input's \<open>toString()\<close> itself does not return. It returns
  \<open>undefined\<close> for \<open>undefined\<close> and \<open>null\<close>, a string itself, and for any other value
  whatever its \<open>toString()\<close> returns, or the text \<open>Unable to stringify error.\<close> when
  \<open>toString()\<close> throws. So it returns \<open>undefined\<close> exactly when the input is \<open>undefined\<close>
  or \<open>null\<close> or its \<open>toString()\<close> returns \<open>undefined\<close>.
\<close>

theorem tryErrorToString_total:
  "tryErrorToString error \<noteq> Some (Inl exn) \<and>
   (tryErrorToString error = None) = (error = JsOther None) \<and>
   (tryErrorToString error = Some (Inr JsUndefined)) =
     (error = JsUndefined \<or> error = JsNull \<or> error = JsOther (Some (Inr JsUndefined))) \<and>
   tryErrorToString (JsString s) = Some (Inr (JsString s)) \<and>
   tryErrorToString (JsOther (Some (Inr returned))) = Some (Inr returned) \<and>
   tryErrorToString (JsOther (Some (Inl thrown))) =
     Some (Inr (JsString ''Unable to stringify error.''))"
proof (cases error)
  case (JsOther toString)
  show ?thesis
  proof (cases toString)
    case None
    with JsOther show ?thesis by (simp add: tryErrorToString_def)
  next
    case (Some outcome)
    with JsOther show ?thesis
      by (cases outcome) (auto simp: tryErrorToString_def)
  qed
qed (simp_all add: tryErrorToString_def)

text \<open>
  C9 as stated fails for a value whose \<open>toString()\<close> returns \<open>undefined\<close>: the input is
  neither \<open>undefined\<close> nor \<open>null\<close>, and the function returns \<open>undefined\<close>. It is not total
  either: when \<open>toString()\<close> does not return, neither does the function.
\<close>

theorem tryErrorToString_undefined_counterexample:
  "tryErrorToString (JsOther (Some (Inr JsUndefined))) = Some (Inr JsUndefined) \<and>
   JsOther (Some (Inr JsUndefined)) \<noteq> JsUndefined \<and>
   JsOther (Some (Inr JsUndefined)) \<noteq> JsNull \<and>
   tryErrorToString (JsOther None) = None"
  by (simp add: tryErrorToString_def)

section \<open>Properties of the log query\<close>

lemma queryLogsByBlock_found:
  assumes "provider flt (n + k) = Inr (l # ls)"
    and "\<forall>j<k. provider flt (n + j) = Inr []"
  shows "queryLogsByBlock provider flt n = Some (Inr (Some l, Suc (n + k)))"
  using assms
proof (induction k arbitrary: n)
  case 0
  then show ?case
    by (subst queryLogsByBlock.simps) simp
next
  case (Suc k)
  from Suc.prems(2) have first: "provider flt n = Inr []"
    by (metis add.right_neutral zero_less_Suc)
  have later: "\<forall>j<k. provider flt (Suc n + j) = Inr []"
  proof (intro allI impI)
    fix j assume "j < k"
    then have "Suc j < Suc k" by simp
    with Suc.prems(2) have "provider flt (n + Suc j) = Inr []"
      by blast
    then show "provider flt (Suc n + j) = Inr []" by simp
  qed
  have "provider flt (Suc n + k) = Inr (l # ls)"
    using Suc.prems(1) by simp
  then have "queryLogsByBlock provider flt (Suc n) = Some (Inr (Some l, Suc (Suc n + k)))"
    using later by (rule Suc.IH)
  then show ?case
    by (subst queryLogsByBlock.simps) (simp add: first)
qed

lemma queryLogsByBlock_returns:
  fixes provider :: "'l provider"
  assumes "queryLogsByBlock provider flt n = Some r"
  shows "\<exists>k. provider flt (n + k) \<noteq> Inr [] \<and> (\<forall>j<k. provider flt (n + j) = Inr [])"
proof (rule queryLogsByBlock.raw_induct
    [where P = "\<lambda>p f m y. \<exists>k. p f (m + k) \<noteq> Inr [] \<and> (\<forall>j<k. p f (m + j) = Inr [])",
     OF _ assms])
  fix qlb :: "'l provider \<Rightarrow> log_filter \<Rightarrow> nat \<Rightarrow> (query_error + 'l option \<times> nat) option"
    and p :: "'l provider" and f :: log_filter and m :: nat
    and y :: "query_error + 'l option \<times> nat"
  assume IH: "\<And>p f m y. qlb p f m = Some y \<Longrightarrow>
      \<exists>k. p f (m + k) \<noteq> Inr [] \<and> (\<forall>j<k. p f (m + j) = Inr [])"
    and step: "(case p f m of
        Inl e \<Rightarrow> Some (Inl (GetLogsFailed e))
      | Inr [] \<Rightarrow> qlb p f (Suc m)
      | Inr (l # x) \<Rightarrow> Some (Inr (Some l, Suc m))) = Some y"
  show "\<exists>k. p f (m + k) \<noteq> Inr [] \<and> (\<forall>j<k. p f (m + j) = Inr [])"
  proof (cases "p f m = Inr []")
    case True
    with step have "qlb p f (Suc m) = Some y"
      by simp
    then obtain k where k: "p f (Suc m + k) \<noteq> Inr []"
      "\<forall>j<k. p f (Suc m + j) = Inr []"
      using IH by blast
    have "p f (m + j) = Inr []" if "j < Suc k" for j
    proof (cases j)
      case 0
      with True show ?thesis by simp
    next
      case (Suc i)
      with that have "i < k" by simp
      with k(2) have "p f (Suc m + i) = Inr []" by blast
      with Suc show ?thesis by simp
    qed
    moreover have "p f (m + Suc k) \<noteq> Inr []"
      using k(1) by simp
    ultimately show ?thesis by blast
  next
    case False
    then have "p f (m + 0) \<noteq> Inr [] \<and> (\<forall>j<0. p f (m + j) = Inr [])"
      by simp
    then show ?thesis by blast
  qed
qed

lemma queryLogs_undefined_interval:
  "queryLogs None addr iface ev provider blockHash messageIdentifier
     = Some (Inl RetryIntervalUndefined)"
  by (simp add: queryLogs_def)

lemma queryLogs_unknown_event:
  assumes "retryInterval \<noteq> None" and "getEvent iface ev = None"
  shows "queryLogs retryInterval addr iface ev provider blockHash messageIdentifier
           = Some (Inl TopicHashOfNull)"
  using assms by (cases retryInterval) (simp_all add: queryLogs_def)

lemma queryLogs_neither:
  assumes "retryInterval \<noteq> None" and "getEvent iface ev = Some topic"
    and "\<not> truthy blockHash" and "\<not> truthy messageIdentifier"
  shows "queryLogs retryInterval addr iface ev provider blockHash messageIdentifier
           = Some (Inr (None, 0))"
  using assms by (cases retryInterval) (simp_all add: queryLogs_def Let_def)

lemma queryLogs_byBlock:
  assumes "retryInterval \<noteq> None" and "getEvent iface ev = Some topic" and "truthy blockHash"
  shows "queryLogs retryInterval addr iface ev provider blockHash messageIdentifier =
           queryLogsByBlock provider
             \<lparr> f_address = addr, f_topics = [topic], f_blockHash = blockHash \<rparr> 0"
  using assms by (cases retryInterval) (simp_all add: queryLogs_def Let_def)

text \<open>
  C10, as amended. When \<open>retryInterval\<close> is undefined, every call throws
  \<open>Retry interval is not defined\<close>; when it is defined and the interface does not have
  the event, every call throws on reading the topic hash; neither polls the provider.
  With \<open>retryInterval\<close> defined and the event known: a call with neither a block hash nor
  a message identifier (absent or empty) returns \<open>undefined\<close> without a single poll,
  whatever the provider is. A call with a block hash, to a provider whose polls do not
  fail, returns if and only if some poll answers with a list that is not empty; it then
  returns the first log of the first such poll, after exactly that many polls. Otherwise
  it never returns.
\<close>

theorem queryLogs_polling:
  "(retryInterval = None \<longrightarrow>
      queryLogs retryInterval addr iface ev provider blockHash messageIdentifier
        = Some (Inl RetryIntervalUndefined)) \<and>
   (retryInterval \<noteq> None \<and> getEvent iface ev = None \<longrightarrow>
      queryLogs retryInterval addr iface ev provider blockHash messageIdentifier
        = Some (Inl TopicHashOfNull)) \<and>
   (retryInterval \<noteq> None \<and> getEvent iface ev = Some topic \<and>
    \<not> truthy blockHash \<and> \<not> truthy messageIdentifier \<longrightarrow>
      queryLogs retryInterval addr iface ev provider blockHash messageIdentifier
        = Some (Inr (None, 0))) \<and>
   (retryInterval \<noteq> None \<and> getEvent iface ev = Some topic \<and> truthy blockHash \<longrightarrow>
      (let flt = \<lparr> f_address = addr, f_topics = [topic], f_blockHash = blockHash \<rparr>;
           result = queryLogs retryInterval addr iface ev (\<lambda>f n. Inr (logs f n))
                      blockHash messageIdentifier
       in (result \<noteq> None) = (\<exists>n. logs flt n \<noteq> []) \<and>
          (\<forall>n. logs flt n \<noteq> [] \<and> (\<forall>j<n. logs flt j = []) \<longrightarrow>
             result = Some (Inr (Some (hd (logs flt n)), Suc n)))))"
proof (intro conjI impI)
  assume "retryInterval = None"
  then show "queryLogs retryInterval addr iface ev provider blockHash messageIdentifier
      = Some (Inl RetryIntervalUndefined)"
    by (simp add: queryLogs_undefined_interval)
next
  assume "retryInterval \<noteq> None \<and> getEvent iface ev = None"
  then show "queryLogs retryInterval addr iface ev provider blockHash messageIdentifier
      = Some (Inl TopicHashOfNull)"
    by (simp add: queryLogs_unknown_event)
next
  assume "retryInterval \<noteq> None \<and> getEvent iface ev = Some topic \<and>
    \<not> truthy blockHash \<and> \<not> truthy messageIdentifier"
  then show "queryLogs retryInterval addr iface ev provider blockHash messageIdentifier
      = Some (Inr (None, 0))"
    using queryLogs_neither [of retryInterval iface ev topic blockHash messageIdentifier]
    by blast
next
  assume given: "retryInterval \<noteq> None \<and> getEvent iface ev = Some topic \<and> truthy blockHash"
  define flt where
    "flt = \<lparr> f_address = addr, f_topics = [topic], f_blockHash = blockHash \<rparr>"
  define P :: "'a provider" where "P = (\<lambda>f n. Inr (logs f n))"
  define result where
    "result = queryLogs retryInterval addr iface ev P blockHash messageIdentifier"
  have result: "result = queryLogsByBlock P flt 0"
    unfolding result_def flt_def using given by (intro queryLogs_byBlock) simp_all
  have found: "result = Some (Inr (Some (hd (logs flt n)), Suc n))"
    if "logs flt n \<noteq> []" and "\<forall>j<n. logs flt j = []" for n
  proof -
    from that(1) obtain l ls where "logs flt n = l # ls"
      by (cases "logs flt n") simp_all
    then have poll: "P flt (0 + n) = Inr (l # ls)" and first: "hd (logs flt n) = l"
      by (simp_all add: P_def)
    have earlier: "\<forall>j<n. P flt (0 + j) = Inr []"
      using that(2) by (simp add: P_def)
    have "queryLogsByBlock P flt 0 = Some (Inr (Some l, Suc (0 + n)))"
      using poll earlier by (rule queryLogsByBlock_found)
    with first show ?thesis
      by (simp add: result)
  qed
  have "result \<noteq> None" if "\<exists>n. logs flt n \<noteq> []"
  proof -
    from that obtain n where "logs flt n \<noteq> []" and "\<forall>j<n. logs flt j = []"
      using exists_least_iff [of "\<lambda>n. logs flt n \<noteq> []"] by auto
    then show ?thesis
      using found by simp
  qed
  moreover have "\<exists>n. logs flt n \<noteq> []" if "result \<noteq> None"
  proof -
    from that obtain r where "queryLogsByBlock P flt 0 = Some r"
      by (auto simp: result)
    then obtain k where "P flt (0 + k) \<noteq> Inr []"
      using queryLogsByBlock_returns by blast
    then have "logs flt k \<noteq> []"
      by (simp add: P_def)
    then show ?thesis ..
  qed
  ultimately have "(result \<noteq> None) = (\<exists>n. logs flt n \<noteq> [])"
    by blast
  with found have "(result \<noteq> None) = (\<exists>n. logs flt n \<noteq> []) \<and>
      (\<forall>n. logs flt n \<noteq> [] \<and> (\<forall>j<n. logs flt j = []) \<longrightarrow>
         result = Some (Inr (Some (hd (logs flt n)), Suc n)))"
    by blast
  then show "let flt = \<lparr> f_address = addr, f_topics = [topic], f_blockHash = blockHash \<rparr>;
                 result = queryLogs retryInterval addr iface ev (\<lambda>f n. Inr (logs f n))
                            blockHash messageIdentifier
             in (result \<noteq> None) = (\<exists>n. logs flt n \<noteq> []) \<and>
                (\<forall>n. logs flt n \<noteq> [] \<and> (\<forall>j<n. logs flt j = []) \<longrightarrow>
                   result = Some (Inr (Some (hd (logs flt n)), Suc n)))"
    unfolding Let_def result_def P_def flt_def .
qed

theorem queryLogs_polling_witness:
  "queryLogs None ''0xESCROW'' exampleInterface ''BountyPlaced'' silentProvider
     (Some ''0xBLOCK'') None = Some (Inl RetryIntervalUndefined) \<and>
   queryLogs (Some 2000) ''0xESCROW'' exampleInterface ''NoSuchEvent'' silentProvider
     (Some ''0xBLOCK'') None = Some (Inl TopicHashOfNull) \<and>
   queryLogs (Some 2000) ''0xESCROW'' exampleInterface ''BountyPlaced'' silentProvider None None
     = Some (Inr (None, 0)) \<and>
   queryLogs (Some 2000) ''0xESCROW'' exampleInterface ''BountyPlaced''
     (\<lambda>f n. Inr (thirdPollLogs f n)) (Some ''0xBLOCK'') None
     = Some (Inr (Some ''log A'', 3))"
proof -
  have defined: "Some (2000 :: number) \<noteq> None" by simp
  have known: "getEvent exampleInterface ''BountyPlaced'' = Some ''0xTOPIC''"
    and unknown: "getEvent exampleInterface ''NoSuchEvent'' = None"
    by (simp_all add: exampleInterface_def)
  have neither: "\<not> truthy None \<and> \<not> truthy None"
    by (simp add: truthy_def)
  have given: "truthy (Some ''0xBLOCK'')"
    by (simp add: truthy_def)
  have third: "thirdPollLogs flt 2 \<noteq> [] \<and> (\<forall>j<2. thirdPollLogs flt j = [])" for flt
    by (simp add: thirdPollLogs_def)
  have first_log: "hd (thirdPollLogs flt 2) = ''log A''" for flt
    by (simp add: thirdPollLogs_def)
  from queryLogs_polling [of None "''0xESCROW''" exampleInterface "''BountyPlaced''"
      silentProvider "Some ''0xBLOCK''" None]
  have a: "queryLogs None ''0xESCROW'' exampleInterface ''BountyPlaced'' silentProvider
      (Some ''0xBLOCK'') None = Some (Inl RetryIntervalUndefined)"
    by blast
  from queryLogs_polling [of "Some 2000" "''0xESCROW''" exampleInterface "''NoSuchEvent''"
      silentProvider "Some ''0xBLOCK''" None] defined unknown
  have b: "queryLogs (Some 2000) ''0xESCROW'' exampleInterface ''NoSuchEvent'' silentProvider
      (Some ''0xBLOCK'') None = Some (Inl TopicHashOfNull)"
    by blast
  from queryLogs_polling [of "Some 2000" "''0xESCROW''" exampleInterface "''BountyPlaced''"
      silentProvider None None "''0xTOPIC''"] defined known neither
  have c: "queryLogs (Some 2000) ''0xESCROW'' exampleInterface ''BountyPlaced'' silentProvider
      None None = Some (Inr (None, 0))"
    by blast
  from queryLogs_polling [of "Some 2000" "''0xESCROW''" exampleInterface "''BountyPlaced''"
      silentProvider "Some ''0xBLOCK''" None "''0xTOPIC''" thirdPollLogs]
    defined known given third
  have "queryLogs (Some 2000) ''0xESCROW'' exampleInterface ''BountyPlaced''
     (\<lambda>f n. Inr (thirdPollLogs f n)) (Some ''0xBLOCK'') None
     = Some (Inr (Some (hd (thirdPollLogs
         \<lparr> f_address = ''0xESCROW'', f_topics = [''0xTOPIC''],
           f_blockHash = Some ''0xBLOCK'' \<rparr> 2)), Suc 2))"
    unfolding Let_def by blast
  then have d: "queryLogs (Some 2000) ''0xESCROW'' exampleInterface ''BountyPlaced''
     (\<lambda>f n. Inr (thirdPollLogs f n)) (Some ''0xBLOCK'') None
     = Some (Inr (Some ''log A'', 3))"
    by (simp add: first_log numeral_3_eq_3)
  from a b c d show ?thesis by blast
qed

text \<open>
  C10 as stated fails when the configuration leaves \<open>retryInterval\<close> undefined: the call
  with neither a block hash nor a message identifier throws instead of returning
  \<open>undefined\<close>.
\<close>

theorem queryLogs_retryInterval_counterexample:
  "queryLogs None ''0xESCROW'' exampleInterface ''BountyPlaced'' silentProvider None None
     = Some (Inl RetryIntervalUndefined) \<and>
   queryLogs None ''0xESCROW'' exampleInterface ''BountyPlaced'' silentProvider None None
     \<noteq> Some (Inr (None, 0))"
  by (simp add: queryLogs_def)

section \<open>Properties of the modelled store and evaluator\<close>

lemma statusOf_le_2: "statusOf E \<le> 2"
  by (cases E) simp_all

lemma status_mergeEvent: "status (mergeEvent E S) = max (status S) (statusOf E)"
  by (simp add: mergeEvent_def Let_def split: EventKind.splits)

lemma slot_mergeEvent:
  "slot k (mergeEvent E S) = (if k = kindOf E then fillSlot E (slot k S) else slot k S)"
  by (cases k; cases "kindOf E") (simp_all add: mergeEvent_def Let_def)

lemma fillSlot_Some: "\<exists>e. fillSlot E s = Some e"
  by (simp add: fillSlot_def split: option.splits)

lemma status_walletResult:
  "status (walletResult u S) = (case u of Observed E \<Rightarrow> max (status S) (statusOf E) | _ \<Rightarrow> status S)"
proof (cases u)
  case (Observed E)
  then show ?thesis by (simp add: status_mergeEvent)
next
  case (WalletConfirmed mid k cost)
  then show ?thesis by (cases k) simp_all
next
  case (WalletFailed mid k)
  then show ?thesis by (cases k) simp_all
qed

lemma slot_walletResult:
  "slot k (walletResult u S) \<noteq> None" if "slot k S \<noteq> None"
proof (cases u)
  case (Observed E)
  then show ?thesis
    using that fillSlot_Some [of E "slot k S"] by (auto simp: slot_mergeEvent)
next
  case (WalletConfirmed mid ok cost)
  then show ?thesis using that by (cases ok; cases k) simp_all
next
  case (WalletFailed mid ok)
  then show ?thesis using that by (cases ok; cases k) simp_all
qed

text \<open>The state of a key after one mutation of the store.\<close>

lemma storeUpdate_key:
  "storeUpdate u store key =
     (if key = relayStateKey (updateMid u)
      then (case store key of
              Some S \<Rightarrow> Some (walletResult u S)
            | None \<Rightarrow> (case u of
                         Observed E \<Rightarrow> Some (mergeEvent E (emptyRelayState (updateMid u)))
                       | _ \<Rightarrow> None))
      else store key)"
  by (cases u) (auto simp: storeUpdate_def Let_def split: option.splits)

lemma storeUpdate_step:
  assumes "store key = Some S"
  shows "\<exists>S'. storeUpdate u store key = Some S' \<and> status S \<le> status S' \<and>
           (status S = 2 \<longrightarrow> status S' = 2) \<and>
           (\<forall>k. slot k S \<noteq> None \<longrightarrow> slot k S' \<noteq> None)"
proof (cases "key = relayStateKey (updateMid u)")
  case False
  with assms show ?thesis by (simp add: storeUpdate_key)
next
  case True
  with assms have "storeUpdate u store key = Some (walletResult u S)"
    by (simp add: storeUpdate_key)
  moreover have "status S \<le> status (walletResult u S)"
    by (simp add: status_walletResult split: StoreUpdate.splits)
  moreover have "status S = 2 \<longrightarrow> status (walletResult u S) = 2"
  proof (cases u)
    case (Observed E)
    then show ?thesis
      using statusOf_le_2 [of E] by (simp add: status_mergeEvent max_def)
  qed (simp_all add: status_walletResult)
  moreover have "\<forall>k. slot k S \<noteq> None \<longrightarrow> slot k (walletResult u S) \<noteq> None"
    using slot_walletResult by blast
  ultimately show ?thesis by blast
qed

lemma storeUpdate_fold:
  assumes "store key = Some S"
  shows "\<exists>S'. fold storeUpdate us store key = Some S' \<and> status S \<le> status S' \<and>
           (status S = 2 \<longrightarrow> status S' = 2) \<and>
           (\<forall>k. slot k S \<noteq> None \<longrightarrow> slot k S' \<noteq> None)"
  using assms
proof (induction us arbitrary: store S)
  case Nil
  then show ?case by simp
next
  case (Cons u us)
  from storeUpdate_step [of store key S u, OF Cons.prems] obtain S1 where
    S1: "storeUpdate u store key = Some S1" "status S \<le> status S1"
      "status S = 2 \<longrightarrow> status S1 = 2" "\<forall>k. slot k S \<noteq> None \<longrightarrow> slot k S1 \<noteq> None"
    by blast
  from Cons.IH [of "storeUpdate u store" S1, OF S1(1)] obtain S' where
    S': "fold storeUpdate us (storeUpdate u store) key = Some S'" "status S1 \<le> status S'"
      "status S1 = 2 \<longrightarrow> status S' = 2" "\<forall>k. slot k S1 \<noteq> None \<longrightarrow> slot k S' \<noteq> None"
    by blast
  have "fold storeUpdate (u # us) store key = Some S'"
    using S'(1) by simp
  moreover have "status S \<le> status S'"
    using S1(2) S'(2) by simp
  moreover have "status S = 2 \<longrightarrow> status S' = 2"
    using S1(3) S'(3) by blast
  moreover have "\<forall>k. slot k S \<noteq> None \<longrightarrow> slot k S' \<noteq> None"
    using S1(4) S'(4) by blast
  ultimately show ?case by blast
qed

text \<open>
  C1. Once a \<open>BountyPlaced\<close> has been persisted for a MID, its \<open>RelayState\<close> exists, and
  whatever sequence of observed events and wallet results follows, the \<open>RelayState\<close> of a
  key stays in the store and its status never gets lower. A \<open>RelayState\<close> with status 2
  whose three slots for \<open>BountyPlaced\<close>, \<open>MessageDelivered\<close> and \<open>BountyClaimed\<close> are
  populated keeps status 2 and the three slots populated.
\<close>

theorem relayState_status_monotone:
  "(\<exists>S. storeUpdate (Observed (BountyPlaced i inc)) store0
           (relayStateKey (ev_messageIdentifier i)) = Some S) \<and>
   (\<forall>S. store key = Some S \<longrightarrow>
      (\<exists>S'. fold storeUpdate us store key = Some S' \<and> status S \<le> status S' \<and>
         (status S = 2 \<and> bountyPlacedEvent S \<noteq> None \<and> messageDeliveredEvent S \<noteq> None \<and>
          bountyClaimedEvent S \<noteq> None \<longrightarrow>
          status S' = 2 \<and> bountyPlacedEvent S' \<noteq> None \<and> messageDeliveredEvent S' \<noteq> None \<and>
          bountyClaimedEvent S' \<noteq> None)))"
proof (intro conjI allI impI)
  show "\<exists>S. storeUpdate (Observed (BountyPlaced i inc)) store0
           (relayStateKey (ev_messageIdentifier i)) = Some S"
    by (simp add: storeUpdate_key split: option.splits)
next
  fix S assume "store key = Some S"
  from storeUpdate_fold [of store key S us, OF this] obtain S' where
    S': "fold storeUpdate us store key = Some S'" "status S \<le> status S'"
      "status S = 2 \<longrightarrow> status S' = 2" "\<forall>k. slot k S \<noteq> None \<longrightarrow> slot k S' \<noteq> None"
    by blast
  have "bountyPlacedEvent S \<noteq> None \<longrightarrow> bountyPlacedEvent S' \<noteq> None"
    using S'(4) [rule_format, of Placed] by simp
  moreover have "messageDeliveredEvent S \<noteq> None \<longrightarrow> messageDeliveredEvent S' \<noteq> None"
    using S'(4) [rule_format, of Delivered] by simp
  moreover have "bountyClaimedEvent S \<noteq> None \<longrightarrow> bountyClaimedEvent S' \<noteq> None"
    using S'(4) [rule_format, of Claimed] by simp
  ultimately show "\<exists>S'. fold storeUpdate us store key = Some S' \<and> status S \<le> status S' \<and>
         (status S = 2 \<and> bountyPlacedEvent S \<noteq> None \<and> messageDeliveredEvent S \<noteq> None \<and>
          bountyClaimedEvent S \<noteq> None \<longrightarrow>
          status S' = 2 \<and> bountyPlacedEvent S' \<noteq> None \<and> messageDeliveredEvent S' \<noteq> None \<and>
          bountyClaimedEvent S' \<noteq> None)"
    using S'(1,2,3) by blast
qed

theorem relayState_status_monotone_witness:
  "\<exists>S'. fold storeUpdate laterUpdates terminalStore (relayStateKey ''0xMID'') = Some S' \<and>
        status S' = 2 \<and> bountyPlacedEvent S' \<noteq> None \<and> messageDeliveredEvent S' \<noteq> None \<and>
        bountyClaimedEvent S' \<noteq> None"
proof -
  have "\<exists>S. terminalStore (relayStateKey ''0xMID'') = Some S \<and> status S = 2 \<and>
      bountyPlacedEvent S \<noteq> None \<and> messageDeliveredEvent S \<noteq> None \<and>
      bountyClaimedEvent S \<noteq> None"
    by (simp add: terminalStore_def storeUpdate_def relayStateKey_def emptyStore_def
        placedOnForkA_def deliveredEvent_def claimedEvent_def exampleInfo_def
        emptyRelayState_def mergeEvent_def fillSlot_def Let_def)
  then obtain S where S: "terminalStore (relayStateKey ''0xMID'') = Some S" "status S = 2"
      "bountyPlacedEvent S \<noteq> None" "messageDeliveredEvent S \<noteq> None"
      "bountyClaimedEvent S \<noteq> None"
    by blast
  from relayState_status_monotone
         [of "exampleInfo 10 0 ''0xFORK-A''" "exampleIncentive 50" emptyStore terminalStore
             "relayStateKey ''0xMID''" laterUpdates]
  have "\<exists>S'. fold storeUpdate laterUpdates terminalStore (relayStateKey ''0xMID'') = Some S' \<and>
      status S \<le> status S' \<and>
      (status S = 2 \<and> bountyPlacedEvent S \<noteq> None \<and> messageDeliveredEvent S \<noteq> None \<and>
       bountyClaimedEvent S \<noteq> None \<longrightarrow>
       status S' = 2 \<and> bountyPlacedEvent S' \<noteq> None \<and> messageDeliveredEvent S' \<noteq> None \<and>
       bountyClaimedEvent S' \<noteq> None)"
    using S(1) by blast
  with S(2-5) show ?thesis by blast
qed

lemma larger_irrefl: "\<not> larger p p"
  by (simp add: larger_def)

lemma larger_total: "p \<noteq> q \<Longrightarrow> larger p q \<or> larger q p"
  by (auto simp: larger_def prod_eq_iff)

lemma larger_trans: "larger p q \<Longrightarrow> larger q r \<Longrightarrow> larger p r"
  by (auto simp: larger_def)

lemma larger_asym: "larger p q \<Longrightarrow> \<not> larger q p"
  by (auto simp: larger_def)

text \<open>Events of one MID only change the state of that MID.\<close>

lemma fold_storeUpdate_same_mid:
  assumes "\<forall>e\<in>set es. ev_messageIdentifier (infoOf e) = mid"
  shows "fold storeUpdate (map Observed es) store =
           (if es = [] then store
            else store (relayStateKey mid \<mapsto>
                   fold mergeEvent es (case store (relayStateKey mid) of
                                         None \<Rightarrow> emptyRelayState mid | Some S \<Rightarrow> S)))"
  using assms
proof (induction es arbitrary: store)
  case Nil
  show ?case by simp
next
  case (Cons e es)
  then have e: "ev_messageIdentifier (infoOf e) = mid"
    and rest: "\<forall>e\<in>set es. ev_messageIdentifier (infoOf e) = mid"
    by simp_all
  have one: "storeUpdate (Observed e) store =
      store (relayStateKey mid \<mapsto>
        mergeEvent e (case store (relayStateKey mid) of
                        None \<Rightarrow> emptyRelayState mid | Some S \<Rightarrow> S))"
    by (simp add: storeUpdate_def Let_def e split: option.splits)
  show ?case
  proof (cases "es = []")
    case True
    then show ?thesis by (simp add: one)
  next
    case False
    then show ?thesis
      by (simp add: Cons.IH [OF rest] one)
  qed
qed

lemma status_fold_mergeEvent:
  "status (fold mergeEvent es S) = Max (insert (status S) (statusOf ` set es))"
proof (induction es arbitrary: S)
  case Nil
  show ?case by simp
next
  case (Cons e es)
  have "status (fold mergeEvent (e # es) S) =
      Max (insert (max (status S) (statusOf e)) (statusOf ` set es))"
    by (simp add: Cons.IH status_mergeEvent)
  also have "\<dots> = max (max (status S) (statusOf e)) (Max (insert (statusOf e) (statusOf ` set es)))"
    by (cases "set es = {}") (simp_all add: max.assoc)
  also have "\<dots> = max (status S) (Max (insert (statusOf e) (statusOf ` set es)))"
    by (cases "set es = {}") (simp_all add: max.assoc)
  also have "\<dots> = Max (insert (status S) (statusOf ` set (e # es)))"
    by simp
  finally show ?case .
qed

lemma slot_fold_mergeEvent:
  "slot k (fold mergeEvent es S) = fold fillSlot (filter (\<lambda>e. kindOf e = k) es) (slot k S)"
  by (induction es arbitrary: S) (simp_all add: slot_mergeEvent)

lemma fold_fillSlot_None: "fold fillSlot xs s = None \<longleftrightarrow> xs = [] \<and> s = None"
proof (induction xs arbitrary: s)
  case Nil
  show ?case by simp
next
  case (Cons x xs)
  then show ?case
    using fillSlot_Some [of x s] by auto
qed

lemma fold_fillSlot_max:
  assumes "fold fillSlot xs s = Some r"
  shows "(r \<in> set xs \<or> s = Some r) \<and>
         (\<forall>x\<in>set xs. \<not> larger (position x) (position r)) \<and>
         (\<forall>old. s = Some old \<longrightarrow> \<not> larger (position old) (position r))"
  using assms
proof (induction xs arbitrary: s)
  case Nil
  then show ?case by (simp add: larger_irrefl)
next
  case (Cons x xs)
  from Cons.prems have run: "fold fillSlot xs (fillSlot x s) = Some r"
    by simp
  note IH = Cons.IH [OF run]
  from IH have mem: "r \<in> set xs \<or> fillSlot x s = Some r"
    and above: "\<forall>x'\<in>set xs. \<not> larger (position x') (position r)"
    and kept: "\<forall>old. fillSlot x s = Some old \<longrightarrow> \<not> larger (position old) (position r)"
    by blast+
  show ?case
  proof (cases s)
    case None
    then have "fillSlot x s = Some x"
      by (simp add: fillSlot_def)
    with mem above kept None show ?thesis by auto
  next
    case (Some old)
    show ?thesis
    proof (cases "larger (position x) (position old)")
      case True
      then have fs: "fillSlot x s = Some x"
        by (simp add: fillSlot_def Some)
      with kept have xr: "\<not> larger (position x) (position r)"
        by simp
      have "\<not> larger (position old) (position r)"
        using True xr larger_trans by blast
      with mem above xr fs Some show ?thesis by auto
    next
      case False
      then have fs: "fillSlot x s = Some old"
        by (simp add: fillSlot_def Some)
      with kept have oldr: "\<not> larger (position old) (position r)"
        by simp
      have "\<not> larger (position x) (position r)"
      proof
        assume xr: "larger (position x) (position r)"
        show False
        proof (cases "position r = position old")
          case True
          with xr False show False by simp
        next
          case ne: False
          then have "larger (position r) (position old)"
            using oldr larger_total by blast
          with xr have "larger (position x) (position old)"
            by (rule larger_trans)
          with False show False by simp
        qed
      qed
      with mem above oldr fs Some show ?thesis by auto
    qed
  qed
qed

lemma slot_without_events:
  assumes "k \<notin> kindOf ` set es"
  shows "slot k (fold mergeEvent es (emptyRelayState mid)) = None"
proof -
  have "filter (\<lambda>e. kindOf e = k) es = []"
    using assms by (auto simp: filter_empty_conv)
  moreover have "slot k (emptyRelayState mid) = None"
    by (cases k) (simp_all add: emptyRelayState_def)
  ultimately show ?thesis
    by (simp add: slot_fold_mergeEvent)
qed


lemma fillSlot_filled:
  "fillSlot x (Some old) = (if larger (position x) (position old) then Some x else Some old)"
  by (simp add: fillSlot_def)

lemma fold_fillSlot_from:
  assumes "fold fillSlot xs (Some old) = Some r"
  shows "r = old \<or> larger (position r) (position old)"
  using assms
proof (induction xs arbitrary: old)
  case Nil
  then show ?case by simp
next
  case (Cons x xs)
  show ?case
  proof (cases "larger (position x) (position old)")
    case True
    then have "fold fillSlot xs (Some x) = Some r"
      using Cons.prems by (simp add: fillSlot_filled)
    then have "r = x \<or> larger (position r) (position x)"
      by (rule Cons.IH)
    with True show ?thesis
      using larger_trans by blast
  next
    case False
    then have "fold fillSlot xs (Some old) = Some r"
      using Cons.prems by (simp add: fillSlot_filled)
    then show ?thesis
      by (rule Cons.IH)
  qed
qed

text \<open>
  What a slot holds after a run of events depends only on which events there were, as
  long as the largest position among them belongs to one event only.
\<close>

lemma fold_fillSlot_same_set:
  assumes sets: "set xs = set xs'"
    and top: "\<forall>x\<in>set xs. \<forall>y\<in>set xs.
        position x = position y \<and> (\<forall>z\<in>set xs. \<not> larger (position z) (position x)) \<longrightarrow> x = y"
  shows "fold fillSlot xs s = fold fillSlot xs' s"
proof (cases "xs = []")
  case True
  with sets show ?thesis by simp
next
  case False
  with sets have "xs' \<noteq> []" by auto
  from False obtain r where r: "fold fillSlot xs s = Some r"
    using fold_fillSlot_None [of xs s] by (cases "fold fillSlot xs s") auto
  from \<open>xs' \<noteq> []\<close> obtain r' where r': "fold fillSlot xs' s = Some r'"
    using fold_fillSlot_None [of xs' s] by (cases "fold fillSlot xs' s") auto
  note m = fold_fillSlot_max [OF r]
  note m' = fold_fillSlot_max [OF r', folded sets]
  have tops: "r = r'" if "r \<in> set xs" and "r' \<in> set xs"
  proof -
    have "\<not> larger (position r') (position r)" and "\<not> larger (position r) (position r')"
      using m m' that by blast+
    then have "position r = position r'"
      using larger_total by blast
    moreover have "\<forall>z\<in>set xs. \<not> larger (position z) (position r)"
      using m by blast
    ultimately show ?thesis
      using top that by blast
  qed
  have "r = r'"
  proof (cases s)
    case None
    with m m' have "r \<in> set xs" and "r' \<in> set xs"
      by simp_all
    then show ?thesis by (rule tops)
  next
    case (Some old)
    have from_old: "r = old \<or> larger (position r) (position old)"
      using r unfolding Some by (rule fold_fillSlot_from)
    have from_old': "r' = old \<or> larger (position r') (position old)"
      using r' unfolding Some by (rule fold_fillSlot_from)
    show ?thesis
    proof (cases "r = old")
      case r_old: True
      show ?thesis
      proof (cases "r' = old")
        case True
        with r_old show ?thesis by simp
      next
        case False
        with from_old' have above: "larger (position r') (position old)"
          by simp
        from False m' Some have "r' \<in> set xs"
          by auto
        with m have "\<not> larger (position r') (position r)"
          by blast
        with above r_old show ?thesis by simp
      qed
    next
      case r_new: False
      with from_old have above: "larger (position r) (position old)"
        by simp
      from r_new m Some have in_xs: "r \<in> set xs"
        by auto
      show ?thesis
      proof (cases "r' = old")
        case True
        from in_xs m' have "\<not> larger (position r) (position r')"
          by blast
        with above True show ?thesis by simp
      next
        case False
        with m' Some have "r' \<in> set xs"
          by auto
        with in_xs show ?thesis by (rule tops)
      qed
    qed
  qed
  with r r' show ?thesis by simp
qed

lemma fold_mergeEvent_other_fields:
  "rs_messageIdentifier (fold mergeEvent es S) = rs_messageIdentifier S"
  "deliveryGasCost (fold mergeEvent es S) = deliveryGasCost S"
  "ackGasCost (fold mergeEvent es S) = ackGasCost S"
  "deliveryAttempts (fold mergeEvent es S) = deliveryAttempts S"
  "ackAttempts (fold mergeEvent es S) = ackAttempts S"
  "RelayState.more (fold mergeEvent es S) = RelayState.more S"
  by (induction es arbitrary: S; simp add: mergeEvent_def Let_def split: EventKind.splits)+

lemma fold_mergeEvent_same_set:
  assumes sets: "set es = set es'"
    and top: "\<forall>x\<in>set es. \<forall>y\<in>set es.
        kindOf x = kindOf y \<and> position x = position y \<and>
        (\<forall>z\<in>set es. kindOf z = kindOf x \<longrightarrow> \<not> larger (position z) (position x)) \<longrightarrow> x = y"
  shows "fold mergeEvent es S = fold mergeEvent es' S"
proof (rule RelayState.equality)
  have slots: "slot k (fold mergeEvent es S) = slot k (fold mergeEvent es' S)" for k
  proof -
    have "set (filter (\<lambda>e. kindOf e = k) es) = set (filter (\<lambda>e. kindOf e = k) es')"
      using sets by simp
    moreover have "\<forall>x\<in>set (filter (\<lambda>e. kindOf e = k) es).
        \<forall>y\<in>set (filter (\<lambda>e. kindOf e = k) es).
          position x = position y \<and>
          (\<forall>z\<in>set (filter (\<lambda>e. kindOf e = k) es). \<not> larger (position z) (position x)) \<longrightarrow>
          x = y"
    proof (intro ballI impI)
      fix x y
      assume x: "x \<in> set (filter (\<lambda>e. kindOf e = k) es)"
        and y: "y \<in> set (filter (\<lambda>e. kindOf e = k) es)"
        and h: "position x = position y \<and>
          (\<forall>z\<in>set (filter (\<lambda>e. kindOf e = k) es). \<not> larger (position z) (position x))"
      from x y have mem: "x \<in> set es" "y \<in> set es" and kinds: "kindOf x = kindOf y"
        and kx: "kindOf x = k"
        by simp_all
      from h have px: "position x = position y"
        and hz: "\<forall>z\<in>set (filter (\<lambda>e. kindOf e = k) es). \<not> larger (position z) (position x)"
        by blast+
      have "\<forall>z\<in>set es. kindOf z = kindOf x \<longrightarrow> \<not> larger (position z) (position x)"
      proof (intro ballI impI)
        fix z assume "z \<in> set es" and "kindOf z = kindOf x"
        then have "z \<in> set (filter (\<lambda>e. kindOf e = k) es)"
          using kx by simp
        with hz show "\<not> larger (position z) (position x)"
          by blast
      qed
      with top mem kinds px show "x = y"
        by blast
    qed
    ultimately have "fold fillSlot (filter (\<lambda>e. kindOf e = k) es) (slot k S) =
        fold fillSlot (filter (\<lambda>e. kindOf e = k) es') (slot k S)"
      by (rule fold_fillSlot_same_set)
    then show ?thesis
      by (simp add: slot_fold_mergeEvent)
  qed
  show "status (fold mergeEvent es S) = status (fold mergeEvent es' S)"
    by (simp add: status_fold_mergeEvent sets)
  show "bountyPlacedEvent (fold mergeEvent es S) = bountyPlacedEvent (fold mergeEvent es' S)"
    using slots [of Placed] by simp
  show "bountyIncreasedEvent (fold mergeEvent es S) = bountyIncreasedEvent (fold mergeEvent es' S)"
    using slots [of Increased] by simp
  show "messageDeliveredEvent (fold mergeEvent es S) = messageDeliveredEvent (fold mergeEvent es' S)"
    using slots [of Delivered] by simp
  show "bountyClaimedEvent (fold mergeEvent es S) = bountyClaimedEvent (fold mergeEvent es' S)"
    using slots [of Claimed] by simp
qed (simp_all add: fold_mergeEvent_other_fields)

lemma slot_of_largest:
  assumes top: "\<forall>x\<in>set es. \<forall>y\<in>set es.
        kindOf x = kindOf y \<and> position x = position y \<and>
        (\<forall>z\<in>set es. kindOf z = kindOf x \<longrightarrow> \<not> larger (position z) (position x)) \<longrightarrow> x = y"
    and e: "e \<in> set es"
    and largest: "\<forall>e'\<in>set es. kindOf e' = kindOf e \<longrightarrow> \<not> larger (position e') (position e)"
  shows "slot (kindOf e) (fold mergeEvent es (emptyRelayState mid)) = Some e"
proof -
  define xs where "xs = filter (\<lambda>x. kindOf x = kindOf e) es"
  have start: "slot (kindOf e) (emptyRelayState mid) = None"
    by (cases "kindOf e") (simp_all add: emptyRelayState_def)
  have final: "slot (kindOf e) (fold mergeEvent es (emptyRelayState mid)) = fold fillSlot xs None"
    by (simp add: slot_fold_mergeEvent xs_def start)
  have "e \<in> set xs"
    using e by (simp add: xs_def)
  then have "fold fillSlot xs None \<noteq> None"
    by (auto simp: fold_fillSlot_None)
  then obtain r where r: "fold fillSlot xs None = Some r"
    by blast
  from fold_fillSlot_max [OF r] have "r \<in> set xs"
    and above: "\<forall>x\<in>set xs. \<not> larger (position x) (position r)"
    by simp_all
  then have rk: "r \<in> set es" "kindOf r = kindOf e"
    by (simp_all add: xs_def)
  have "\<not> larger (position e) (position r)"
    using above \<open>e \<in> set xs\<close> by blast
  moreover have "\<not> larger (position r) (position e)"
    using largest rk by blast
  ultimately have "position r = position e"
    using larger_total by blast
  moreover have "kindOf e = kindOf r"
    using rk(2) by simp
  ultimately have "position e = position r" by simp
  from top [rule_format, OF e rk(1)] \<open>kindOf e = kindOf r\<close> this largest
  have "e = r"
    by blast
  with final r show ?thesis by simp
qed

text \<open>
  C2, as amended. Take a finite sequence of events of one MID in which, for every slot,
  the largest \<open>(blockNumber, logIndex)\<close> among the events of that slot belongs to one event
  only. Merging it into the store in any permutation gives the same store. If the MID
  had no \<open>RelayState\<close> before and the sequence is not empty, the resulting \<open>RelayState\<close>
  holds in each slot the event of that kind with the largest \<open>(blockNumber, logIndex)\<close>,
  leaves a slot without events empty, and has as status the maximum of \<open>statusOf\<close> over
  the events.
\<close>

theorem merge_permutation_invariant:
  assumes same_mid: "\<forall>e\<in>set es. ev_messageIdentifier (infoOf e) = mid"
    and top: "\<forall>x\<in>set es. \<forall>y\<in>set es.
        kindOf x = kindOf y \<and> position x = position y \<and>
        (\<forall>z\<in>set es. kindOf z = kindOf x \<longrightarrow> \<not> larger (position z) (position x)) \<longrightarrow> x = y"
    and perm: "mset es' = mset es"
  shows "fold storeUpdate (map Observed es') store = fold storeUpdate (map Observed es) store \<and>
         (store (relayStateKey mid) = None \<and> es \<noteq> [] \<longrightarrow>
            (\<exists>S. fold storeUpdate (map Observed es) store (relayStateKey mid) = Some S \<and>
                 status S = Max (statusOf ` set es) \<and>
                 (\<forall>e\<in>set es.
                    (\<forall>e'\<in>set es. kindOf e' = kindOf e \<longrightarrow>
                       \<not> larger (position e') (position e)) \<longrightarrow>
                    slot (kindOf e) S = Some e) \<and>
                 (\<forall>k. k \<notin> kindOf ` set es \<longrightarrow> slot k S = None)))"
proof
  have sets: "set es = set es'"
    using perm [symmetric] by (rule mset_eq_setD)
  have same_mid': "\<forall>e\<in>set es'. ev_messageIdentifier (infoOf e) = mid"
    using same_mid sets by simp
  have empty: "es' = [] \<longleftrightarrow> es = []"
    using sets by auto
  have "fold mergeEvent es S = fold mergeEvent es' S" for S
    using sets top by (rule fold_mergeEvent_same_set)
  then show "fold storeUpdate (map Observed es') store = fold storeUpdate (map Observed es) store"
    by (simp add: fold_storeUpdate_same_mid [OF same_mid] fold_storeUpdate_same_mid [OF same_mid']
        empty)
next
  show "store (relayStateKey mid) = None \<and> es \<noteq> [] \<longrightarrow>
      (\<exists>S. fold storeUpdate (map Observed es) store (relayStateKey mid) = Some S \<and>
           status S = Max (statusOf ` set es) \<and>
           (\<forall>e\<in>set es.
              (\<forall>e'\<in>set es. kindOf e' = kindOf e \<longrightarrow> \<not> larger (position e') (position e)) \<longrightarrow>
              slot (kindOf e) S = Some e) \<and>
           (\<forall>k. k \<notin> kindOf ` set es \<longrightarrow> slot k S = None))"
  proof
    assume fresh: "store (relayStateKey mid) = None \<and> es \<noteq> []"
    define S where "S = fold mergeEvent es (emptyRelayState mid)"
    have "fold storeUpdate (map Observed es) store (relayStateKey mid) = Some S"
      using fresh by (simp add: fold_storeUpdate_same_mid [OF same_mid] S_def)
    moreover have "status S = Max (statusOf ` set es)"
    proof -
      from fresh obtain e where "e \<in> set es"
        by (cases es) auto
      then have "statusOf ` set es \<noteq> {}" by auto
      then have "Max (insert 0 (statusOf ` set es)) = Max (statusOf ` set es)"
        by simp
      then show ?thesis
        by (simp add: S_def status_fold_mergeEvent emptyRelayState_def)
    qed
    moreover have "\<forall>e\<in>set es.
        (\<forall>e'\<in>set es. kindOf e' = kindOf e \<longrightarrow> \<not> larger (position e') (position e)) \<longrightarrow>
        slot (kindOf e) S = Some e"
      unfolding S_def using slot_of_largest [OF top] by blast
    moreover have "\<forall>k. k \<notin> kindOf ` set es \<longrightarrow> slot k S = None"
      unfolding S_def using slot_without_events by blast
    ultimately show "\<exists>S. fold storeUpdate (map Observed es) store (relayStateKey mid) = Some S \<and>
           status S = Max (statusOf ` set es) \<and>
           (\<forall>e\<in>set es.
              (\<forall>e'\<in>set es. kindOf e' = kindOf e \<longrightarrow> \<not> larger (position e') (position e)) \<longrightarrow>
              slot (kindOf e) S = Some e) \<and>
           (\<forall>k. k \<notin> kindOf ` set es \<longrightarrow> slot k S = None)"
      by blast
  qed
qed

theorem merge_permutation_invariant_witness:
  "fold storeUpdate
     (map Observed [claimedEvent, placedFinal, placedOnForkB, deliveredEvent, placedOnForkA])
     emptyStore =
   fold storeUpdate
     (map Observed [placedOnForkA, placedOnForkB, placedFinal, deliveredEvent, claimedEvent])
     emptyStore \<and>
   (\<exists>S. fold storeUpdate
          (map Observed [placedOnForkA, placedOnForkB, placedFinal, deliveredEvent, claimedEvent])
          emptyStore (relayStateKey ''0xMID'') = Some S \<and>
        status S = 2 \<and> slot Placed S = Some placedFinal \<and>
        slot Claimed S = Some claimedEvent \<and> slot Increased S = None)"
proof -
  define es where
    "es = [placedOnForkA, placedOnForkB, placedFinal, deliveredEvent, claimedEvent]"
  define es' where
    "es' = [claimedEvent, placedFinal, placedOnForkB, deliveredEvent, placedOnForkA]"
  have kinds: "kindOf placedOnForkA = Placed" "kindOf placedOnForkB = Placed"
    "kindOf placedFinal = Placed" "kindOf deliveredEvent = Delivered"
    "kindOf claimedEvent = Claimed"
    by (simp_all add: placedOnForkA_def placedOnForkB_def placedFinal_def deliveredEvent_def
        claimedEvent_def)
  have positions: "position placedOnForkA = (10, 0)" "position placedOnForkB = (10, 0)"
    "position placedFinal = (12, 0)" "position deliveredEvent = (12, 3)"
    "position claimedEvent = (15, 1)"
    by (simp_all add: position_def placedOnForkA_def placedOnForkB_def placedFinal_def
        deliveredEvent_def claimedEvent_def exampleInfo_def)
  have same_mid: "\<forall>e\<in>set es. ev_messageIdentifier (infoOf e) = ''0xMID''"
    by (simp add: es_def placedOnForkA_def placedOnForkB_def placedFinal_def deliveredEvent_def
        claimedEvent_def exampleInfo_def)
  have top: "\<forall>x\<in>set es. \<forall>y\<in>set es.
      kindOf x = kindOf y \<and> position x = position y \<and>
      (\<forall>z\<in>set es. kindOf z = kindOf x \<longrightarrow> \<not> larger (position z) (position x)) \<longrightarrow> x = y"
    by (simp add: es_def kinds positions larger_def)
  have perm: "mset es' = mset es"
    by (simp add: es_def es'_def)
  have fresh: "emptyStore (relayStateKey ''0xMID'') = None \<and> es \<noteq> []"
    by (simp add: emptyStore_def es_def)
  have highest: "Max (statusOf ` set es) = 2"
    by (simp add: es_def placedOnForkA_def placedOnForkB_def placedFinal_def deliveredEvent_def
        claimedEvent_def)
  have final: "placedFinal \<in> set es"
    and final_largest: "\<forall>e'\<in>set es. kindOf e' = kindOf placedFinal \<longrightarrow>
        \<not> larger (position e') (position placedFinal)"
    and claimed: "claimedEvent \<in> set es"
    and claimed_largest: "\<forall>e'\<in>set es. kindOf e' = kindOf claimedEvent \<longrightarrow>
        \<not> larger (position e') (position claimedEvent)"
    and none: "Increased \<notin> kindOf ` set es"
    by (simp_all add: es_def kinds positions larger_def)
  note inst = merge_permutation_invariant [OF same_mid top perm, of emptyStore]
  from inst have "fold storeUpdate (map Observed es') emptyStore =
      fold storeUpdate (map Observed es) emptyStore"
    by (rule conjunct1)
  moreover from inst fresh obtain S where
    S: "fold storeUpdate (map Observed es) emptyStore (relayStateKey ''0xMID'') = Some S"
      "status S = Max (statusOf ` set es)"
      "\<forall>e\<in>set es. (\<forall>e'\<in>set es. kindOf e' = kindOf e \<longrightarrow>
          \<not> larger (position e') (position e)) \<longrightarrow> slot (kindOf e) S = Some e"
      "\<forall>k. k \<notin> kindOf ` set es \<longrightarrow> slot k S = None"
    by blast
  have "status S = 2"
    using S(2) highest by simp
  moreover have "slot (kindOf placedFinal) S = Some placedFinal"
    using S(3) final final_largest by blast
  then have "slot Placed S = Some placedFinal"
    by (simp only: kinds)
  moreover have "slot (kindOf claimedEvent) S = Some claimedEvent"
    using S(3) claimed claimed_largest by blast
  then have "slot Claimed S = Some claimedEvent"
    by (simp only: kinds)
  moreover have "slot Increased S = None"
    using S(4) none by blast
  ultimately show ?thesis
    using S(1) unfolding es_def es'_def by blast
qed

text \<open>
  C2 as stated fails when two different events of a slot share their
  \<open>(blockNumber, logIndex)\<close>, as the same bounty seen on two forks does: neither is
  larger, so the one merged first stays, and the two orders end in different states.
\<close>

theorem merge_tie_counterexample:
  "mset [placedOnForkB, placedOnForkA] = mset [placedOnForkA, placedOnForkB] \<and>
   map_option bountyPlacedEvent
     (fold storeUpdate (map Observed [placedOnForkA, placedOnForkB]) emptyStore
        (relayStateKey ''0xMID'')) = Some (Some placedOnForkA) \<and>
   map_option bountyPlacedEvent
     (fold storeUpdate (map Observed [placedOnForkB, placedOnForkA]) emptyStore
        (relayStateKey ''0xMID'')) = Some (Some placedOnForkB) \<and>
   fold storeUpdate (map Observed [placedOnForkA, placedOnForkB]) emptyStore \<noteq>
   fold storeUpdate (map Observed [placedOnForkB, placedOnForkA]) emptyStore"
proof -
  have ne: "placedOnForkA \<noteq> placedOnForkB"
    by (simp add: placedOnForkA_def placedOnForkB_def exampleInfo_def)
  have a: "map_option bountyPlacedEvent
     (fold storeUpdate (map Observed [placedOnForkA, placedOnForkB]) emptyStore
        (relayStateKey ''0xMID'')) = Some (Some placedOnForkA)"
    by (simp add: storeUpdate_def relayStateKey_def emptyStore_def placedOnForkA_def
        placedOnForkB_def exampleInfo_def emptyRelayState_def mergeEvent_def fillSlot_def
        position_def larger_def Let_def)
  have b: "map_option bountyPlacedEvent
     (fold storeUpdate (map Observed [placedOnForkB, placedOnForkA]) emptyStore
        (relayStateKey ''0xMID'')) = Some (Some placedOnForkB)"
    by (simp add: storeUpdate_def relayStateKey_def emptyStore_def placedOnForkA_def
        placedOnForkB_def exampleInfo_def emptyRelayState_def mergeEvent_def fillSlot_def
        position_def larger_def Let_def)
  have "fold storeUpdate (map Observed [placedOnForkA, placedOnForkB]) emptyStore \<noteq>
      fold storeUpdate (map Observed [placedOnForkB, placedOnForkA]) emptyStore"
  proof
    assume eq: "fold storeUpdate (map Observed [placedOnForkA, placedOnForkB]) emptyStore =
      fold storeUpdate (map Observed [placedOnForkB, placedOnForkA]) emptyStore"
    from a [unfolded eq] b have "Some (Some placedOnForkA) = Some (Some placedOnForkB)"
      by (rule trans [OF sym])
    with ne show False by simp
  qed
  with a b show ?thesis by simp
qed

lemma candidate_cases:
  "candidate S = Some DeliveryOrder \<longleftrightarrow> status S = 0 \<and> messageDeliveredEvent S = None"
  "candidate S = Some AckOrder \<longleftrightarrow> status S = 1 \<and> bountyClaimedEvent S = None"
  by (auto simp: candidate_def)

lemma evaluate_candidate:
  assumes "candidate S = Some k"
  shows "evaluate cfg q S =
           (if valueIn q k S \<ge> requiredValue cfg q k
            then Some \<lparr> order_messageIdentifier = rs_messageIdentifier S, order_kind = k \<rparr>
            else None)"
  using assms by (simp add: evaluate_def)

lemma valueIn_zero_price: "priceOfGas k S = 0 \<Longrightarrow> valueIn q k S = 0"
  by (simp add: valueIn_def)

lemma relayTicks_unprofitable:
  assumes "candidate S = Some k" and "priceOfGas k S = 0"
    and "\<forall>(q, outcome)\<in>set ticks. 0 < requiredValue cfg q k"
  shows "relayTicks cfg ticks S = (S, [])"
  using assms(3)
proof (induction ticks)
  case Nil
  show ?case by simp
next
  case (Cons t ticks)
  obtain q outcome where t: "t = (q, outcome)" by (cases t)
  from Cons.prems have "0 < requiredValue cfg q k"
    and rest: "\<forall>(q, outcome)\<in>set ticks. 0 < requiredValue cfg q k"
    by (simp_all add: t)
  then have "evaluate cfg q S = None"
    by (simp add: evaluate_candidate [OF assms(1)] valueIn_zero_price [OF assms(2)])
  then show ?case
    by (simp add: t Cons.IH [OF rest])
qed

text \<open>
  C3, as amended. For a pending \<open>RelayState\<close>, one with a candidate order, the evaluator
  emits the order if and only if
  \<open>valueIn \<ge> costOut \<times> (1 + relativeMinReward) + minReward\<close> at decision time, and it emits
  nothing for a state without candidate. For a bounty placed with
  \<open>priceOfDeliveryGas = 0\<close> and \<open>priceOfAckGas = 0\<close> and never increased, as long as the
  required value \<open>costOut \<times> (1 + relativeMinDeliveryReward) + minDeliveryReward\<close> is
  positive at every tick, no delivery order is ever emitted and the \<open>RelayState\<close> stays
  as it is, at status 0.
\<close>

theorem evaluator_profitability:
  "(candidate S = Some k \<longrightarrow>
      (evaluate cfg q S \<noteq> None) = (valueIn q k S \<ge> requiredValue cfg q k) \<and>
      (evaluate cfg q S \<noteq> None \<longrightarrow>
         evaluate cfg q S =
           Some \<lparr> order_messageIdentifier = rs_messageIdentifier S, order_kind = k \<rparr>)) \<and>
   (candidate S = None \<longrightarrow> evaluate cfg q S = None) \<and>
   (bountyPlacedEvent S = Some (BountyPlaced i inc) \<and> inc_priceOfDeliveryGas inc = 0 \<and>
    inc_priceOfAckGas inc = 0 \<and> bountyIncreasedEvent S = None \<and> status S = 0 \<and>
    messageDeliveredEvent S = None \<and>
    (\<forall>(q, outcome)\<in>set ticks. 0 < requiredValue cfg q DeliveryOrder) \<longrightarrow>
      relayTicks cfg ticks S = (S, []) \<and> status (fst (relayTicks cfg ticks S)) = 0)"
proof (intro conjI impI)
  assume k: "candidate S = Some k"
  show "(evaluate cfg q S \<noteq> None) = (valueIn q k S \<ge> requiredValue cfg q k)"
    by (simp add: evaluate_candidate [OF k])
  show "evaluate cfg q S =
      Some \<lparr> order_messageIdentifier = rs_messageIdentifier S, order_kind = k \<rparr>"
    if "evaluate cfg q S \<noteq> None"
    using that by (simp add: evaluate_candidate [OF k] split: if_splits)
next
  assume "candidate S = None"
  then show "evaluate cfg q S = None"
    by (simp add: evaluate_def)
next
  assume zero: "bountyPlacedEvent S = Some (BountyPlaced i inc) \<and> inc_priceOfDeliveryGas inc = 0 \<and>
    inc_priceOfAckGas inc = 0 \<and> bountyIncreasedEvent S = None \<and> status S = 0 \<and>
    messageDeliveredEvent S = None \<and>
    (\<forall>(q, outcome)\<in>set ticks. 0 < requiredValue cfg q DeliveryOrder)"
  then have "candidate S = Some DeliveryOrder"
    by (simp add: candidate_cases)
  moreover from zero have "priceOfGas DeliveryOrder S = 0"
    by (simp add: priceOfGas_def)
  moreover from zero have "\<forall>(q, outcome)\<in>set ticks. 0 < requiredValue cfg q DeliveryOrder"
    by blast
  ultimately have run: "relayTicks cfg ticks S = (S, [])"
    by (rule relayTicks_unprofitable)
  then show "relayTicks cfg ticks S = (S, [])" .
  from run zero show "status (fst (relayTicks cfg ticks S)) = 0"
    by simp
qed

theorem evaluator_profitability_witness:
  "relayTicks exampleEvaluatorConfig
     [(pricedQuote, deliveryOutcome), (pricedQuote, deliveryOutcome)] zeroPriceState
     = (zeroPriceState, []) \<and>
   status zeroPriceState = 0 \<and>
   evaluate exampleEvaluatorConfig pricedQuote zeroPriceState = None"
proof -
  have state: "bountyPlacedEvent zeroPriceState =
        Some (BountyPlaced (exampleInfo 10 0 ''0xFORK-A'') (exampleIncentive 0)) \<and>
      inc_priceOfDeliveryGas (exampleIncentive 0) = 0 \<and>
      inc_priceOfAckGas (exampleIncentive 0) = 0 \<and>
      bountyIncreasedEvent zeroPriceState = None \<and> status zeroPriceState = 0 \<and>
      messageDeliveredEvent zeroPriceState = None"
    by (simp add: zeroPriceState_def mergeEvent_def emptyRelayState_def fillSlot_def
        exampleIncentive_def Let_def)
  have margin: "\<forall>(q, outcome)\<in>set [(pricedQuote, deliveryOutcome), (pricedQuote, deliveryOutcome)].
      0 < requiredValue exampleEvaluatorConfig q DeliveryOrder"
    by (simp add: requiredValue_def costOut_def pricedQuote_def exampleEvaluatorConfig_def)
  have pending: "candidate zeroPriceState = Some DeliveryOrder"
    using state by (simp add: candidate_def)
  have unprofitable: "\<not> valueIn pricedQuote DeliveryOrder zeroPriceState
      \<ge> requiredValue exampleEvaluatorConfig pricedQuote DeliveryOrder"
    using state
    by (simp add: valueIn_def priceOfGas_def requiredValue_def costOut_def pricedQuote_def
        exampleEvaluatorConfig_def)
  note inst = evaluator_profitability
      [of zeroPriceState DeliveryOrder exampleEvaluatorConfig pricedQuote
          "exampleInfo 10 0 ''0xFORK-A''" "exampleIncentive 0"
          "[(pricedQuote, deliveryOutcome), (pricedQuote, deliveryOutcome)]"]
  from inst state margin have "relayTicks exampleEvaluatorConfig
     [(pricedQuote, deliveryOutcome), (pricedQuote, deliveryOutcome)] zeroPriceState
     = (zeroPriceState, [])"
    by blast
  moreover from inst pending unprofitable
  have "evaluate exampleEvaluatorConfig pricedQuote zeroPriceState = None"
    by blast
  ultimately show ?thesis
    using state by blast
qed

text \<open>
  C3 as stated fails when the required value is not positive: with a local gas price of
  zero and no minimum reward, a bounty with zero gas prices passes the test \<open>0 \<ge> 0\<close>, the
  delivery order is emitted, and the state reaches status 1.
\<close>

theorem evaluator_zero_cost_counterexample:
  "bountyPlacedEvent zeroPriceState =
     Some (BountyPlaced (exampleInfo 10 0 ''0xFORK-A'') (exampleIncentive 0)) \<and>
   bountyIncreasedEvent zeroPriceState = None \<and> status zeroPriceState = 0 \<and>
   snd (relayTicks exampleEvaluatorConfig [(freeGasQuote, deliveryOutcome)] zeroPriceState) =
     [\<lparr> order_messageIdentifier = ''0xMID'', order_kind = DeliveryOrder \<rparr>] \<and>
   status (fst (relayTicks exampleEvaluatorConfig [(freeGasQuote, deliveryOutcome)]
                  zeroPriceState)) = 1"
  by (simp add: zeroPriceState_def mergeEvent_def emptyRelayState_def fillSlot_def
      exampleIncentive_def exampleInfo_def Let_def evaluate_def candidate_def valueIn_def
      priceOfGas_def maxGas_def requiredValue_def costOut_def freeGasQuote_def
      exampleEvaluatorConfig_def deliveryOutcome_def deliveredEvent_def)

end
